theory Spec2Isabelle
  imports Complex_Main "HOL-Library.Char_ord" "HOL-Library.List_Lexorder"
begin

section \<open>Material ledger (apps/inventory/models.py)\<close>

text \<open>
  The three stock counters of \<^verbatim>\<open>Material\<close> are \<^verbatim>\<open>IntegerField\<close>s. Their
  \<^verbatim>\<open>MinValueValidator(0)\<close> runs only in form validation, never in \<^verbatim>\<open>save()\<close>, so the
  counters are plain integers here and may become negative.
\<close>

record Material =
  total_quantity :: int
  available_quantity :: int
  hired_quantity :: int

text \<open>\<^verbatim>\<open>Material.save\<close>: available_quantity is capped at total_quantity, then the row is written.\<close>

definition Material_save :: "Material \<Rightarrow> Material" where
  "Material_save m =
     (if available_quantity m > total_quantity m
      then m\<lparr>available_quantity := total_quantity m\<rparr>
      else m)"

text \<open>
  The table of materials, by primary key. Every item row refers to its material through a
  \<^verbatim>\<open>PROTECT\<close>ed foreign key, so the row always exists: the table is a total function.
\<close>

type_synonym material_table = "nat \<Rightarrow> Material"

text \<open>The ledger equation of the specification, for one material.\<close>

definition ledger_ok :: "Material \<Rightarrow> bool" where
  "ledger_ok m \<longleftrightarrow>
     available_quantity m + hired_quantity m = total_quantity m
     \<and> 0 \<le> available_quantity m \<and> 0 \<le> hired_quantity m
     \<and> available_quantity m \<le> total_quantity m"

section \<open>Quotations and hire orders (apps/hiring/models.py)\<close>

text \<open>
  Python numbers as the model attributes hold them: \<^verbatim>\<open>int\<close>, \<^verbatim>\<open>decimal.Decimal\<close> (every
  \<^verbatim>\<open>DecimalField\<close> read from the database or cleaned by a form) and \<^verbatim>\<open>float\<close>
  (\<^verbatim>\<open>settings.TAX_RATE\<close>, cast to float in settings.py, and the literal default 0.15).
  A float carries the rational number it denotes.
\<close>

datatype pynum = PyInt int | PyDecimal rat | PyFloat rat

text \<open>
  The exceptions that the modelled code raises and no view catches: \<^verbatim>\<open>TypeError\<close> of
  the arithmetic, \<^verbatim>\<open>AttributeError\<close> of an attribute that the object does not have, and
  \<^verbatim>\<open>IntegrityError\<close> of an INSERT that leaves a NOT NULL column empty.
\<close>

datatype pyerror = TypeError | AttributeError | IntegrityError

text \<open>
  Binary arithmetic of Python on these types. int with Decimal gives Decimal, exactly;
  Decimal with float raises TypeError; int with float gives the float nearest to the exact
  result, \<open>rnd\<close> being the rounding of the machine (a parameter of the model).
\<close>

fun py_arith :: "(rat \<Rightarrow> rat) \<Rightarrow> (rat \<Rightarrow> rat \<Rightarrow> rat) \<Rightarrow> (int \<Rightarrow> int \<Rightarrow> int)
                  \<Rightarrow> pynum \<Rightarrow> pynum \<Rightarrow> pyerror + pynum" where
  "py_arith rnd f g (PyInt a) (PyInt b) = Inr (PyInt (g a b))"
| "py_arith rnd f g (PyInt a) (PyDecimal b) = Inr (PyDecimal (f (of_int a) b))"
| "py_arith rnd f g (PyDecimal a) (PyInt b) = Inr (PyDecimal (f a (of_int b)))"
| "py_arith rnd f g (PyDecimal a) (PyDecimal b) = Inr (PyDecimal (f a b))"
| "py_arith rnd f g (PyDecimal a) (PyFloat b) = Inl TypeError"
| "py_arith rnd f g (PyFloat a) (PyDecimal b) = Inl TypeError"
| "py_arith rnd f g (PyInt a) (PyFloat b) = Inr (PyFloat (rnd (f (of_int a) b)))"
| "py_arith rnd f g (PyFloat a) (PyInt b) = Inr (PyFloat (rnd (f a (of_int b))))"
| "py_arith rnd f g (PyFloat a) (PyFloat b) = Inr (PyFloat (rnd (f a b)))"

definition py_add :: "(rat \<Rightarrow> rat) \<Rightarrow> pynum \<Rightarrow> pynum \<Rightarrow> pyerror + pynum" where
  "py_add rnd = py_arith rnd (+) (+)"

definition py_mul :: "(rat \<Rightarrow> rat) \<Rightarrow> pynum \<Rightarrow> pynum \<Rightarrow> pyerror + pynum" where
  "py_mul rnd = py_arith rnd (*) (*)"

record Quotation =
  quotation_pk :: nat
  quotation_status :: string
  transport_cost :: pynum
  subtotal :: pynum
  tax_amount :: pynum
  total_amount :: pynum

record QuotationItem =
  qi_quotation :: nat
  qi_material :: nat
  quantity :: int
  daily_rate :: rat
  duration_days :: int
  line_total :: rat

text \<open>\<^verbatim>\<open>QuotationItem.save\<close>: Decimal times int times int, exact.\<close>

definition QuotationItem_save :: "QuotationItem \<Rightarrow> QuotationItem" where
  "QuotationItem_save item =
     item\<lparr>line_total := daily_rate item * of_int (quantity item) * of_int (duration_days item)\<rparr>"

text \<open>
  \<^verbatim>\<open>sum(item.line_total for item in self.items.all())\<close>: Python's \<^verbatim>\<open>sum\<close> starts at the
  int 0 and adds the Decimal line totals from the left.
\<close>

fun py_sum :: "(rat \<Rightarrow> rat) \<Rightarrow> pynum \<Rightarrow> pynum list \<Rightarrow> pyerror + pynum" where
  "py_sum rnd acc [] = Inr acc"
| "py_sum rnd acc (x # xs) =
     (case py_add rnd acc x of Inl e \<Rightarrow> Inl e | Inr acc' \<Rightarrow> py_sum rnd acc' xs)"

text \<open>
  \<^verbatim>\<open>Quotation.calculate_totals\<close>. \<open>items\<close> are the quotation's item rows as the query
  returns them, \<open>tax_rate\<close> is \<^verbatim>\<open>getattr(settings, 'TAX_RATE', 0.15)\<close>.
\<close>

definition calculate_totals ::
  "(rat \<Rightarrow> rat) \<Rightarrow> pynum \<Rightarrow> QuotationItem list \<Rightarrow> Quotation \<Rightarrow> pyerror + Quotation" where
  "calculate_totals rnd tax_rate items self =
     (case py_sum rnd (PyInt 0) (map (\<lambda>item. PyDecimal (line_total item)) items) of
        Inl e \<Rightarrow> Inl e
      | Inr subtotal0 \<Rightarrow>
        (case py_add rnd subtotal0 (transport_cost self) of
           Inl e \<Rightarrow> Inl e
         | Inr subtotal' \<Rightarrow>
           (case py_mul rnd subtotal' tax_rate of
              Inl e \<Rightarrow> Inl e
            | Inr tax_amount' \<Rightarrow>
              (case py_add rnd subtotal' tax_amount' of
                 Inl e \<Rightarrow> Inl e
               | Inr total_amount' \<Rightarrow>
                   Inr (self\<lparr>subtotal := subtotal', tax_amount := tax_amount',
                              total_amount := total_amount'\<rparr>)))))"

record HireOrder =
  order_pk :: nat
  order_quotation :: nat
  order_status :: string
  actual_return_date :: "int option"

record HireOrderItem =
  hire_order :: nat
  item_material :: nat
  quantity_ordered :: int
  quantity_dispatched :: int
  quantity_returned :: int

text \<open>The tables the order workflow reads and writes.\<close>

record hire_db =
  materials :: material_table
  quotations :: "Quotation list"
  quotation_items :: "QuotationItem list"
  hire_orders :: "HireOrder list"
  hire_order_items :: "HireOrderItem list"

definition get_quotation :: "hire_db \<Rightarrow> nat \<Rightarrow> Quotation option" where
  "get_quotation db pk = find (\<lambda>q. quotation_pk q = pk) (quotations db)"

definition get_order :: "hire_db \<Rightarrow> nat \<Rightarrow> HireOrder option" where
  "get_order db pk = find (\<lambda>ord. order_pk ord = pk) (hire_orders db)"

text \<open>\<^verbatim>\<open>quotation.items.all()\<close> and \<^verbatim>\<open>order.items.all()\<close>.\<close>

definition items_of_quotation :: "hire_db \<Rightarrow> nat \<Rightarrow> QuotationItem list" where
  "items_of_quotation db pk = filter (\<lambda>item. qi_quotation item = pk) (quotation_items db)"

definition items_of_order :: "hire_db \<Rightarrow> nat \<Rightarrow> HireOrderItem list" where
  "items_of_order db pk = filter (\<lambda>item. hire_order item = pk) (hire_order_items db)"

text \<open>Writing an existing row back (\<^verbatim>\<open>order.save()\<close>, \<^verbatim>\<open>quotation.save()\<close> as UPDATE).\<close>

definition update_order :: "hire_db \<Rightarrow> HireOrder \<Rightarrow> hire_db" where
  "update_order db ord =
     db\<lparr>hire_orders := map (\<lambda>r. if order_pk r = order_pk ord then ord else r) (hire_orders db)\<rparr>"

definition update_quotation :: "hire_db \<Rightarrow> Quotation \<Rightarrow> hire_db" where
  "update_quotation db q =
     db\<lparr>quotations := map (\<lambda>r. if quotation_pk r = quotation_pk q then q else r) (quotations db)\<rparr>"

text \<open>The primary key of a row inserted into a table whose keys are \<open>pks\<close> (auto-increment).\<close>

definition next_pk :: "nat list \<Rightarrow> nat" where
  "next_pk pks = Suc (fold max pks 0)"

section \<open>Reserving and releasing stock (apps/hiring/views.py, apps/api/views.py)\<close>

text \<open>
  The reservation written out in \<^verbatim>\<open>create_order_from_quotation\<close>, \<^verbatim>\<open>order_create\<close> and
  \<^verbatim>\<open>convert_to_order\<close> alike: the material is read, both counters are changed by the
  quantity, and the material is saved.
\<close>

definition reserve_inventory :: "material_table \<Rightarrow> nat \<Rightarrow> int \<Rightarrow> material_table" where
  "reserve_inventory ms mid q =
     (let material = ms mid;
          material = material\<lparr>available_quantity := available_quantity material - q\<rparr>;
          material = material\<lparr>hired_quantity := hired_quantity material + q\<rparr>
      in ms(mid := Material_save material))"

text \<open>\<^verbatim>\<open>for item in order.items.all(): ...\<close> of the order-creation views.\<close>

fun reserve_items :: "material_table \<Rightarrow> HireOrderItem list \<Rightarrow> material_table" where
  "reserve_items ms [] = ms"
| "reserve_items ms (item # items) =
     reserve_items (reserve_inventory ms (item_material item) (quantity_ordered item)) items"

text \<open>The release of \<^verbatim>\<open>order_update_status\<close> at RETURNED, one item and the loop.\<close>

definition release_returned_item :: "material_table \<Rightarrow> HireOrderItem \<Rightarrow> material_table" where
  "release_returned_item ms item =
     (let material = ms (item_material item);
          material = material\<lparr>hired_quantity := hired_quantity material - quantity_dispatched item\<rparr>;
          material = material\<lparr>available_quantity := available_quantity material + quantity_returned item\<rparr>
      in ms(item_material item := Material_save material))"

fun release_returned :: "material_table \<Rightarrow> HireOrderItem list \<Rightarrow> material_table" where
  "release_returned ms [] = ms"
| "release_returned ms (item # items) = release_returned (release_returned_item ms item) items"

text \<open>The release of \<^verbatim>\<open>order_update_status\<close> at COMPLETED.\<close>

definition release_completed_item :: "material_table \<Rightarrow> HireOrderItem \<Rightarrow> material_table" where
  "release_completed_item ms item =
     (let material = ms (item_material item)
      in if quantity_dispatched item > quantity_returned item
         then ms(item_material item := Material_save
                (material\<lparr>hired_quantity := hired_quantity material
                              - (quantity_dispatched item - quantity_returned item)\<rparr>))
         else ms)"

fun release_completed :: "material_table \<Rightarrow> HireOrderItem list \<Rightarrow> material_table" where
  "release_completed ms [] = ms"
| "release_completed ms (item # items) = release_completed (release_completed_item ms item) items"

text \<open>The release of the API action \<^verbatim>\<open>return_order\<close>.\<close>

definition api_return_item :: "material_table \<Rightarrow> HireOrderItem \<Rightarrow> material_table" where
  "api_return_item ms item =
     (let material = ms (item_material item);
          material = material\<lparr>available_quantity := available_quantity material + quantity_dispatched item\<rparr>;
          material = material\<lparr>hired_quantity := hired_quantity material - quantity_dispatched item\<rparr>
      in ms(item_material item := Material_save material))"

fun api_return_items :: "material_table \<Rightarrow> HireOrderItem list \<Rightarrow> material_table" where
  "api_return_items ms [] = ms"
| "api_return_items ms (item # items) = api_return_items (api_return_item ms item) items"

section \<open>Views\<close>

text \<open>
  What a view needs of the request. The role tests of apps/hiring/views.py and
  apps/inventory/views.py read \<^verbatim>\<open>request.user.is_hce\<close>, \<^verbatim>\<open>is_fsm\<close> and \<^verbatim>\<open>is_admin\<close>
  without calling them; they are methods of \<^verbatim>\<open>User\<close> (apps/accounts/models.py), a bound
  method is true, and so \<^verbatim>\<open>not request.user.is_hce and not request.user.is_admin\<close> is
  false for every user: these views have no permission branch. What remains is
  \<^verbatim>\<open>@login_required\<close> and, for the API of the quotations, \<^verbatim>\<open>IsAuthenticated\<close>.
\<close>

record request =
  is_authenticated :: bool
  is_post :: bool
  form_is_valid :: bool

datatype outcome =
    Success
  | Created
  | LoginRequired
  | NotFound
  | InvalidTransition
  | OrderAlreadyExists
  | QuotationNotAccepted
  | InsufficientStock nat
  | CannotRemove
  | RenderForm
  | BadRequest
  | ServerError pyerror

subsection \<open>Order creation from a quotation (apps/hiring/views.py)\<close>

text \<open>The availability check both quotation paths run first: the first item that fails.\<close>

definition first_insufficient :: "material_table \<Rightarrow> QuotationItem list \<Rightarrow> QuotationItem option" where
  "first_insufficient ms items =
     find (\<lambda>item. available_quantity (ms (qi_material item)) < quantity item) items"

definition order_item_of :: "nat \<Rightarrow> QuotationItem \<Rightarrow> HireOrderItem" where
  "order_item_of opk quotation_item =
     \<lparr>hire_order = opk, item_material = qi_material quotation_item,
      quantity_ordered = quantity quotation_item,
      quantity_dispatched = 0, quantity_returned = 0\<rparr>"

definition new_order :: "hire_db \<Rightarrow> nat \<Rightarrow> HireOrder" where
  "new_order db quotation_pk' =
     \<lparr>order_pk = next_pk (map order_pk (hire_orders db)), order_quotation = quotation_pk',
      order_status = ''ORDERED'', actual_return_date = None\<rparr>"

definition create_order_from_quotation :: "request \<Rightarrow> hire_db \<Rightarrow> nat \<Rightarrow> outcome \<times> hire_db" where
  "create_order_from_quotation request db quotation_pk' =
     (if \<not> is_authenticated request then (LoginRequired, db)
      else case get_quotation db quotation_pk' of
        None \<Rightarrow> (NotFound, db)
      | Some quotation \<Rightarrow>
          if list_ex (\<lambda>ord. order_quotation ord = quotation_pk quotation) (hire_orders db)
          then (OrderAlreadyExists, db)
          else if quotation_status quotation \<noteq> ''ACCEPTED'' then (QuotationNotAccepted, db)
          else
            (case first_insufficient (materials db) (items_of_quotation db (quotation_pk quotation)) of
               Some item \<Rightarrow> (InsufficientStock (qi_material item), db)
             | None \<Rightarrow>
                 if is_post request \<and> form_is_valid request
                 then
                   let ord = new_order db (quotation_pk quotation);
                       db = db\<lparr>hire_orders := hire_orders db @ [ord]\<rparr>;
                       db = db\<lparr>hire_order_items := hire_order_items db
                               @ map (order_item_of (order_pk ord))
                                     (items_of_quotation db (quotation_pk quotation))\<rparr>;
                       db = db\<lparr>materials := reserve_items (materials db)
                                                (items_of_order db (order_pk ord))\<rparr>
                   in (Created, db)
                 else (RenderForm, db)))"

subsection \<open>Order creation without a quotation (apps/hiring/views.py)\<close>

text \<open>
  One form of the item formset of \<^verbatim>\<open>order_create\<close>, as cleaned: the material, the
  quantity and the DELETE mark.
\<close>

record HireOrderItemForm =
  form_material :: nat
  form_quantity_ordered :: int
  form_DELETE :: bool

text \<open>
  The loop of \<^verbatim>\<open>order_create\<close> over the forms (views.py, "Save items"): every form
  that is not marked for deletion gives an item of the order \<open>opk\<close>, and its quantity is
  reserved at once, with no look at what is available.
\<close>

fun order_create_items :: "hire_db \<Rightarrow> nat \<Rightarrow> HireOrderItemForm list \<Rightarrow> hire_db" where
  "order_create_items db opk [] = db"
| "order_create_items db opk (item_form # forms) =
     (if \<not> form_DELETE item_form
      then order_create_items
             (db\<lparr>hire_order_items := hire_order_items db
                    @ [\<lparr>hire_order = opk, item_material = form_material item_form,
                        quantity_ordered = form_quantity_ordered item_form,
                        quantity_dispatched = 0, quantity_returned = 0\<rparr>],
                 materials := reserve_inventory (materials db) (form_material item_form)
                                (form_quantity_ordered item_form)\<rparr>)
             opk forms
      else order_create_items db opk forms)"

text \<open>
  \<^verbatim>\<open>order.save()\<close> of a new order: the INSERT. The columns \<^verbatim>\<open>quotation_id\<close>,
  \<^verbatim>\<open>client_id\<close> and \<^verbatim>\<open>hire_duration_days\<close> of \<^verbatim>\<open>HireOrder\<close> are NOT NULL
  (apps/hiring/models.py), so an order that lacks one of them is refused by the database
  with \<^verbatim>\<open>IntegrityError\<close>. The arguments are the three values as the Python object
  holds them, \<open>None\<close> for an attribute that was never set; the result is the key of the
  new row and the new table.
\<close>

definition HireOrder_insert ::
  "hire_db \<Rightarrow> nat option \<Rightarrow> nat option \<Rightarrow> int option \<Rightarrow> pyerror + (nat \<times> hire_db)" where
  "HireOrder_insert db quotation_id client_id hire_duration_days =
     (case (quotation_id, client_id, hire_duration_days) of
        (Some q, Some c, Some d) \<Rightarrow>
          (let ord = new_order db q
           in Inr (order_pk ord, db\<lparr>hire_orders := hire_orders db @ [ord]\<rparr>))
      | _ \<Rightarrow> Inl IntegrityError)"

text \<open>
  \<^verbatim>\<open>order_create\<close>. \<^verbatim>\<open>HireOrderForm\<close> (apps/hiring/forms.py) has the fields
  \<^verbatim>\<open>start_date\<close> and \<^verbatim>\<open>expected_return_date\<close> and no others, and the view sets
  \<^verbatim>\<open>created_by\<close> only, so the order that it saves has no quotation, no client and no
  duration: \<^verbatim>\<open>order.save()\<close> raises before the loop over the item forms is reached.
  \<open>form_is_valid\<close> stands for \<^verbatim>\<open>form.is_valid() and formset.is_valid()\<close>, \<open>formset\<close> for
  the cleaned item forms.
\<close>

definition order_create :: "request \<Rightarrow> hire_db \<Rightarrow> HireOrderItemForm list \<Rightarrow> outcome \<times> hire_db" where
  "order_create request db formset =
     (if \<not> is_authenticated request then (LoginRequired, db)
      else if is_post request \<and> form_is_valid request
      then (case HireOrder_insert db None None None of
              Inl e \<Rightarrow> (ServerError e, db)
            | Inr (opk, db') \<Rightarrow> (Created, order_create_items db' opk formset))
      else (RenderForm, db))"

subsection \<open>Order status changes (apps/hiring/views.py)\<close>

text \<open>The dictionary \<^verbatim>\<open>valid_transitions\<close> with \<^verbatim>\<open>.get(current_status, [])\<close>.\<close>

definition valid_transitions :: "string \<Rightarrow> string list" where
  "valid_transitions current_status =
     (if current_status = ''ORDERED'' then [''APPROVED'', ''CANCELLED'']
      else if current_status = ''APPROVED'' then [''DISPATCHED'', ''CANCELLED'']
      else if current_status = ''DISPATCHED'' then [''ACTIVE'']
      else if current_status = ''ACTIVE'' then [''RETURNED'']
      else if current_status = ''RETURNED'' then [''COMPLETED'']
      else [])"

definition order_update_status :: "request \<Rightarrow> int \<Rightarrow> hire_db \<Rightarrow> nat \<Rightarrow> string \<Rightarrow> outcome \<times> hire_db" where
  "order_update_status request today db pk status =
     (if \<not> is_authenticated request then (LoginRequired, db)
      else case get_order db pk of
        None \<Rightarrow> (NotFound, db)
      | Some ord \<Rightarrow>
          if status \<notin> set (valid_transitions (order_status ord)) then (InvalidTransition, db)
          else
            let ord = ord\<lparr>order_status := status\<rparr>
            in if status = ''RETURNED''
               then
                 let ord = ord\<lparr>actual_return_date := Some today\<rparr>;
                     db = db\<lparr>materials := release_returned (materials db) (items_of_order db (order_pk ord))\<rparr>
                 in (Success, update_order db ord)
               else if status = ''COMPLETED''
               then
                 let db = db\<lparr>materials := release_completed (materials db) (items_of_order db (order_pk ord))\<rparr>
                 in (Success, update_order db ord)
               else (Success, update_order db ord))"

subsection \<open>Manual stock adjustment (apps/inventory/views.py, forms.py)\<close>

text \<open>
  \<^verbatim>\<open>str.isspace\<close> on one character of the range modelled here (code points below 256):
  tab to carriage return, the four separators, the blank, NEL and the no-break space.
\<close>

definition py_isspace :: "char \<Rightarrow> bool" where
  "py_isspace c \<longleftrightarrow>
     (let n = (of_char c :: nat)
      in (9 \<le> n \<and> n \<le> 13) \<or> (28 \<le> n \<and> n \<le> 32) \<or> n = 133 \<or> n = 160)"

text \<open>\<^verbatim>\<open>s.strip()\<close>.\<close>

definition py_strip :: "string \<Rightarrow> string" where
  "py_strip s = rev (dropWhile py_isspace (rev (dropWhile py_isspace s)))"

text \<open>
  \<^verbatim>\<open>MaterialAdjustmentForm\<close>: a choice of ADD or REMOVE, an integer of at least 1 and a
  required reason. The reason is a \<^verbatim>\<open>forms.CharField\<close>, which strips the text before it
  asks whether it is empty, so a reason of blanks only is refused.
\<close>

definition MaterialAdjustmentForm_is_valid :: "string \<Rightarrow> int \<Rightarrow> string \<Rightarrow> bool" where
  "MaterialAdjustmentForm_is_valid adjustment_type qty reason \<longleftrightarrow>
     adjustment_type \<in> set [''ADD'', ''REMOVE''] \<and> 1 \<le> qty \<and> py_strip reason \<noteq> []"

definition material_adjust_stock ::
  "request \<Rightarrow> material_table \<Rightarrow> nat \<Rightarrow> string \<Rightarrow> int \<Rightarrow> string \<Rightarrow> outcome \<times> material_table" where
  "material_adjust_stock request ms pk adjustment_type qty reason =
     (if \<not> is_authenticated request then (LoginRequired, ms)
      else if is_post request \<and> MaterialAdjustmentForm_is_valid adjustment_type qty reason
      then
        let material = ms pk
        in if adjustment_type = ''ADD''
           then (Success, ms(pk := Material_save
                   (material\<lparr>total_quantity := total_quantity material + qty,
                             available_quantity := available_quantity material + qty\<rparr>)))
           else if available_quantity material < qty then (CannotRemove, ms)
           else (Success, ms(pk := Material_save
                   (material\<lparr>total_quantity := total_quantity material - qty,
                             available_quantity := available_quantity material - qty\<rparr>)))
      else (RenderForm, ms))"

subsection \<open>The API viewsets (apps/api/views.py)\<close>

text \<open>
  apps/api/views.py takes \<^verbatim>\<open>timezone\<close>, \<^verbatim>\<open>timedelta\<close> and \<^verbatim>\<open>HireOrderItem\<close> from
  \<^verbatim>\<open>from .serializers import *\<close>; the names are taken to resolve.
\<close>

text \<open>
  The function that the router binds to a route of a viewset (\<^verbatim>\<open>ViewSetMixin.as_view\<close>)
  stores the request it is called with, a plain \<^verbatim>\<open>HttpRequest\<close>, in \<^verbatim>\<open>self.request\<close>
  and returns \<^verbatim>\<open>self.dispatch(request, *args, **kwargs)\<close>. In a viewset that leaves
  \<^verbatim>\<open>dispatch\<close> alone, such as \<^verbatim>\<open>QuotationViewSet\<close>, this is \<^verbatim>\<open>APIView.dispatch\<close>: it
  wraps the request in a \<^verbatim>\<open>rest_framework.request.Request\<close>, checks the permissions and
  calls the action of the route. \<^verbatim>\<open>HireOrderViewSet\<close> gives one of its actions the name
  \<^verbatim>\<open>dispatch\<close>. That method takes the place of \<^verbatim>\<open>APIView.dispatch\<close> in the class, so it
  is what every route of the viewset runs, with the plain request still in
  \<^verbatim>\<open>self.request\<close> and no permission checked.
\<close>

text \<open>The class of the object in \<^verbatim>\<open>self.request\<close>.\<close>

datatype request_class = HttpRequest | RestRequest

text \<open>
  \<^verbatim>\<open>self.get_object()\<close> of \<^verbatim>\<open>HireOrderViewSet\<close>. It starts with
  \<^verbatim>\<open>self.filter_queryset(...)\<close>, which hands \<^verbatim>\<open>self.request\<close> to the
  \<^verbatim>\<open>DjangoFilterBackend\<close> of the class, and the backend reads
  \<^verbatim>\<open>request.query_params\<close>: an attribute of the wrapped request that a plain
  \<^verbatim>\<open>HttpRequest\<close> does not have. Only with a wrapped request is the order looked up.
\<close>

definition get_object :: "request_class \<Rightarrow> hire_db \<Rightarrow> nat \<Rightarrow> outcome + HireOrder" where
  "get_object self_request db pk =
     (case self_request of
        HttpRequest \<Rightarrow> Inl (ServerError AttributeError)
      | RestRequest \<Rightarrow>
          (case get_order db pk of None \<Rightarrow> Inl NotFound | Some ord \<Rightarrow> Inr ord))"

text \<open>The method \<^verbatim>\<open>HireOrderViewSet.dispatch\<close>, \<open>self_request\<close> being \<^verbatim>\<open>self.request\<close>.\<close>

definition HireOrderViewSet_dispatch :: "request_class \<Rightarrow> hire_db \<Rightarrow> nat \<Rightarrow> outcome \<times> hire_db" where
  "HireOrderViewSet_dispatch self_request db pk =
     (case get_object self_request db pk of
        Inl response \<Rightarrow> (response, db)
      | Inr ord \<Rightarrow>
          if order_status ord \<notin> set [''ORDERED'', ''APPROVED''] then (BadRequest, db)
          else
            let db = update_order db (ord\<lparr>order_status := ''DISPATCHED''\<rparr>);
                db = db\<lparr>hire_order_items :=
                        map (\<lambda>item. if hire_order item = order_pk ord
                                     then item\<lparr>quantity_dispatched := quantity_ordered item\<rparr>
                                     else item)
                            (hire_order_items db)\<rparr>
            in (Success, db))"

text \<open>The method \<^verbatim>\<open>HireOrderViewSet.return_order\<close>.\<close>

definition return_order :: "request_class \<Rightarrow> int \<Rightarrow> hire_db \<Rightarrow> nat \<Rightarrow> outcome \<times> hire_db" where
  "return_order self_request today db pk =
     (case get_object self_request db pk of
        Inl response \<Rightarrow> (response, db)
      | Inr ord \<Rightarrow>
          if order_status ord \<noteq> ''ACTIVE'' then (BadRequest, db)
          else
            let db = update_order db (ord\<lparr>order_status := ''RETURNED'',
                                           actual_return_date := Some today\<rparr>);
                db = db\<lparr>materials := api_return_items (materials db) (items_of_order db (order_pk ord))\<rparr>
            in (Success, db))"

text \<open>
  The routes of \<^verbatim>\<open>HireOrderViewSet\<close>: the list and detail routes of a
  \<^verbatim>\<open>ModelViewSet\<close> (which would create, update and delete orders) and the routes of the
  two actions.
\<close>

datatype hire_order_route = ListRoute | DetailRoute | DispatchRoute | ReturnOrderRoute


text \<open>
  The loop of \<^verbatim>\<open>convert_to_order\<close>: each quotation item gets an order item and its
  quantity is reserved at once.
\<close>

fun convert_items :: "hire_db \<Rightarrow> nat \<Rightarrow> QuotationItem list \<Rightarrow> hire_db" where
  "convert_items db opk [] = db"
| "convert_items db opk (quotation_item # rest) =
     convert_items
       (db\<lparr>hire_order_items := hire_order_items db @ [order_item_of opk quotation_item],
           materials := reserve_inventory (materials db) (qi_material quotation_item)
                          (quantity quotation_item)\<rparr>)
       opk rest"

text \<open>
  \<^verbatim>\<open>Quotation.save\<close> of a quotation that has its number: the totals are recomputed, and the
  row is written only if that did not raise.
\<close>

definition Quotation_save :: "(rat \<Rightarrow> rat) \<Rightarrow> pynum \<Rightarrow> hire_db \<Rightarrow> Quotation \<Rightarrow> pyerror + hire_db" where
  "Quotation_save rnd tax_rate db self =
     (case calculate_totals rnd tax_rate (items_of_quotation db (quotation_pk self)) self of
        Inl e \<Rightarrow> Inl e
      | Inr self' \<Rightarrow> Inr (update_quotation db self'))"

text \<open>
  \<^verbatim>\<open>QuotationViewSet.convert_to_order\<close>, reached through \<^verbatim>\<open>APIView.dispatch\<close> and its
  permission check. Nothing wraps the view in a transaction (no \<^verbatim>\<open>ATOMIC_REQUESTS\<close>,
  no \<^verbatim>\<open>transaction.atomic\<close>), so what was written before an exception stays written.
\<close>

definition convert_to_order ::
  "(rat \<Rightarrow> rat) \<Rightarrow> pynum \<Rightarrow> request \<Rightarrow> hire_db \<Rightarrow> nat \<Rightarrow> outcome \<times> hire_db" where
  "convert_to_order rnd tax_rate request db pk =
     (if \<not> is_authenticated request then (LoginRequired, db)
      else case get_quotation db pk of
        None \<Rightarrow> (NotFound, db)
      | Some quotation \<Rightarrow>
          if quotation_status quotation \<noteq> ''ACCEPTED'' then (BadRequest, db)
          else
            (case first_insufficient (materials db) (items_of_quotation db (quotation_pk quotation)) of
               Some item \<Rightarrow> (BadRequest, db)
             | None \<Rightarrow>
                 let ord = new_order db (quotation_pk quotation);
                     db = db\<lparr>hire_orders := hire_orders db @ [ord]\<rparr>;
                     db = convert_items db (order_pk ord)
                            (items_of_quotation db (quotation_pk quotation))
                 in (case Quotation_save rnd tax_rate db
                            (quotation\<lparr>quotation_status := ''CONVERTED''\<rparr>) of
                       Inl e \<Rightarrow> (ServerError e, db)
                     | Inr db' \<Rightarrow> (Created, db'))))"

section \<open>Payments and invoices (apps/finance/models.py)\<close>

text \<open>
  Amounts are \<^verbatim>\<open>DecimalField\<close>s, added and compared exactly. Dates are day numbers,
  \<open>today\<close> being \<^verbatim>\<open>timezone.now().date()\<close>. The rows modelled here exist already, so
  the branch of \<^verbatim>\<open>save\<close> that generates a number is not taken.
\<close>

record Invoice =
  invoice_total :: rat
  amount_paid :: rat
  balance_due :: rat
  payment_status :: string
  due_date :: int

record Payment =
  payment_pk :: nat
  payment_invoice :: nat
  payment_amount :: rat
  confirmed :: bool
  confirmed_by :: "nat option"
  confirmation_date :: "int option"

record finance_db =
  invoices :: "nat \<Rightarrow> Invoice"
  payments :: "Payment list"

definition Invoice_save :: "int \<Rightarrow> Invoice \<Rightarrow> Invoice" where
  "Invoice_save today self =
     (let self = self\<lparr>balance_due := invoice_total self - amount_paid self\<rparr>
      in if amount_paid self \<ge> invoice_total self then self\<lparr>payment_status := ''PAID''\<rparr>
         else if amount_paid self > 0 then self\<lparr>payment_status := ''PARTIAL''\<rparr>
         else if due_date self < today \<and> payment_status self = ''SENT''
              then self\<lparr>payment_status := ''OVERDUE''\<rparr>
         else self)"

text \<open>\<^verbatim>\<open>Payment.save\<close>: the row with this primary key is rewritten, or the row is inserted.\<close>

definition Payment_save :: "finance_db \<Rightarrow> Payment \<Rightarrow> finance_db" where
  "Payment_save db self =
     (if list_ex (\<lambda>r. payment_pk r = payment_pk self) (payments db)
      then db\<lparr>payments := map (\<lambda>r. if payment_pk r = payment_pk self then self else r) (payments db)\<rparr>
      else db\<lparr>payments := payments db @ [self]\<rparr>)"

text \<open>\<^verbatim>\<open>sum(p.amount for p in invoice.payments.filter(confirmed=True))\<close>.\<close>

definition confirmed_total :: "finance_db \<Rightarrow> nat \<Rightarrow> rat" where
  "confirmed_total db invoice_pk =
     sum_list (map payment_amount
       (filter (\<lambda>p. payment_invoice p = invoice_pk \<and> confirmed p) (payments db)))"

text \<open>\<^verbatim>\<open>Payment.confirm_payment\<close>; \<open>now\<close> is \<^verbatim>\<open>timezone.now()\<close>.\<close>

definition confirm_payment ::
  "finance_db \<Rightarrow> Payment \<Rightarrow> nat \<Rightarrow> int \<Rightarrow> int \<Rightarrow> Payment \<times> finance_db" where
  "confirm_payment db self user now today =
     (let self = self\<lparr>confirmed := True, confirmed_by := Some user, confirmation_date := Some now\<rparr>;
          db = Payment_save db self;
          invoice = invoices db (payment_invoice self);
          total_paid = confirmed_total db (payment_invoice self);
          invoice = invoice\<lparr>amount_paid := total_paid\<rparr>;
          invoice = (if total_paid \<ge> invoice_total invoice
                     then invoice\<lparr>payment_status := ''PAID''\<rparr>
                     else if total_paid > 0 then invoice\<lparr>payment_status := ''PARTIAL''\<rparr>
                     else invoice)
      in (self, db\<lparr>invoices := (invoices db)(payment_invoice self := Invoice_save today invoice)\<rparr>))"

section \<open>Credit notes (apps/clients/models.py)\<close>

record Client =
  current_balance :: rat

record CreditNote =
  credit_note_pk :: nat
  cn_client :: nat
  cn_amount :: rat
  cn_status :: string
  applied_to_invoice :: "nat option"
  applied_date :: "int option"
  applied_by :: "nat option"

record client_db =
  clients :: "nat \<Rightarrow> Client"
  credit_notes :: "CreditNote list"

text \<open>\<^verbatim>\<open>Client.update_balance\<close>; the history rows that the pre-save signal writes are left out.\<close>

definition update_balance :: "client_db \<Rightarrow> nat \<Rightarrow> rat \<Rightarrow> client_db" where
  "update_balance db client_pk amount =
     (let self = clients db client_pk;
          self = self\<lparr>current_balance := current_balance self + amount\<rparr>
      in db\<lparr>clients := (clients db)(client_pk := self)\<rparr>)"

definition CreditNote_save :: "client_db \<Rightarrow> CreditNote \<Rightarrow> client_db" where
  "CreditNote_save db self =
     (if list_ex (\<lambda>r. credit_note_pk r = credit_note_pk self) (credit_notes db)
      then db\<lparr>credit_notes :=
              map (\<lambda>r. if credit_note_pk r = credit_note_pk self then self else r) (credit_notes db)\<rparr>
      else db\<lparr>credit_notes := credit_notes db @ [self]\<rparr>)"

text \<open>\<^verbatim>\<open>CreditNote.apply_to_invoice\<close>. The method has no branch and raises nothing.\<close>

definition apply_to_invoice ::
  "client_db \<Rightarrow> CreditNote \<Rightarrow> nat \<Rightarrow> nat \<Rightarrow> int \<Rightarrow> CreditNote \<times> client_db" where
  "apply_to_invoice db self invoice user today =
     (let self = self\<lparr>cn_status := ''APPLIED'', applied_to_invoice := Some invoice,
                      applied_date := Some today, applied_by := Some user\<rparr>;
          db = CreditNote_save db self
      in (self, update_balance db (cn_client self) (- cn_amount self)))"

section \<open>Deliveries and delivery notes (apps/delivery)\<close>












section \<open>Document numbers (the \<^verbatim>\<open>save\<close> methods of the numbered models)\<close>


















section \<open>Quantities used in the statements\<close>

text \<open>What the items of one order ask of, hold of and bring back to material \<open>k\<close>.\<close>

definition ordered_total :: "HireOrderItem list \<Rightarrow> nat \<Rightarrow> int" where
  "ordered_total items k =
     (\<Sum>item\<leftarrow>items. if item_material item = k then quantity_ordered item else 0)"

definition dispatched_total :: "HireOrderItem list \<Rightarrow> nat \<Rightarrow> int" where
  "dispatched_total items k =
     (\<Sum>item\<leftarrow>items. if item_material item = k then quantity_dispatched item else 0)"

definition returned_total :: "HireOrderItem list \<Rightarrow> nat \<Rightarrow> int" where
  "returned_total items k =
     (\<Sum>item\<leftarrow>items. if item_material item = k then quantity_returned item else 0)"

text \<open>
  What the COMPLETED transition writes off material \<open>k\<close>: the units of every item that
  was dispatched and has not come back.
\<close>

definition written_off_total :: "HireOrderItem list \<Rightarrow> nat \<Rightarrow> int" where
  "written_off_total items k =
     (\<Sum>item\<leftarrow>items. if item_material item = k \<and> quantity_dispatched item > quantity_returned item
                      then quantity_dispatched item - quantity_returned item else 0)"

text \<open>A table in which every material has the same counters, for concrete examples.\<close>

definition stock_of :: "Material \<Rightarrow> material_table" where
  "stock_of m = (\<lambda>k. m)"

text \<open>The same for any table that is read by primary key.\<close>

definition table_of :: "'a \<Rightarrow> nat \<Rightarrow> 'a" where
  "table_of row = (\<lambda>k. row)"

section \<open>The material ledger under the workflow\<close>

lemma ordered_total_nonneg:
  "\<forall>item\<in>set items. 0 \<le> quantity_ordered item \<Longrightarrow> 0 \<le> ordered_total items k"
  by (induction items) (auto simp: ordered_total_def)

lemma dispatched_total_nonneg:
  "\<forall>item\<in>set items. 0 \<le> quantity_dispatched item \<Longrightarrow> 0 \<le> dispatched_total items k"
  by (induction items) (auto simp: dispatched_total_def)

lemma returned_total_nonneg:
  "\<forall>item\<in>set items. 0 \<le> quantity_returned item \<Longrightarrow> 0 \<le> returned_total items k"
  by (induction items) (auto simp: returned_total_def)

lemma written_off_total_nonneg: "0 \<le> written_off_total items k"
  by (induction items) (auto simp: written_off_total_def)

lemma ordered_total_Cons:
  "ordered_total (item # items) k
     = (if item_material item = k then quantity_ordered item else 0) + ordered_total items k"
  by (simp add: ordered_total_def)

lemma returned_total_Cons:
  "returned_total (item # items) k
     = (if item_material item = k then quantity_returned item else 0) + returned_total items k"
  by (simp add: returned_total_def)

lemma dispatched_total_Cons:
  "dispatched_total (item # items) k
     = (if item_material item = k then quantity_dispatched item else 0) + dispatched_total items k"
  by (simp add: dispatched_total_def)

lemma written_off_total_Cons:
  "written_off_total (item # items) k
     = (if item_material item = k \<and> quantity_dispatched item > quantity_returned item
        then quantity_dispatched item - quantity_returned item else 0)
       + written_off_total items k"
  by (simp add: written_off_total_def)

subsection \<open>Reservation\<close>

text \<open>
  A reservation of a non-negative quantity lowers available_quantity, so \<^verbatim>\<open>Material.save\<close>
  has nothing to cap: the loop moves what the items order from available to hired.
\<close>

lemma reserve_inventory_fields:
  assumes "0 \<le> q" and "available_quantity (ms mid) \<le> total_quantity (ms mid)"
  shows "total_quantity (reserve_inventory ms mid q k) = total_quantity (ms k)"
    and "available_quantity (reserve_inventory ms mid q k)
           = available_quantity (ms k) - (if mid = k then q else 0)"
    and "hired_quantity (reserve_inventory ms mid q k)
           = hired_quantity (ms k) + (if mid = k then q else 0)"
  using assms by (auto simp: reserve_inventory_def Material_save_def Let_def)

lemma reserve_items_fields:
  assumes "\<forall>item\<in>set items. 0 \<le> quantity_ordered item"
    and "\<forall>k. available_quantity (ms k) \<le> total_quantity (ms k)"
  shows "total_quantity (reserve_items ms items k) = total_quantity (ms k)
       \<and> available_quantity (reserve_items ms items k)
           = available_quantity (ms k) - ordered_total items k
       \<and> hired_quantity (reserve_items ms items k)
           = hired_quantity (ms k) + ordered_total items k"
  using assms
proof (induction items arbitrary: ms)
  case Nil
  then show ?case by (simp add: ordered_total_def)
next
  case (Cons item items)
  let ?m = "item_material item" and ?q = "quantity_ordered item"
  let ?ms = "reserve_inventory ms ?m ?q"
  have q0: "0 \<le> ?q" using Cons.prems(1) by simp
  have le: "available_quantity (ms ?m) \<le> total_quantity (ms ?m)"
    using Cons.prems(2) by blast
  note step = reserve_inventory_fields[of ?q ms ?m, OF q0 le]
  have le': "\<forall>j. available_quantity (?ms j) \<le> total_quantity (?ms j)"
  proof
    fix j
    show "available_quantity (?ms j) \<le> total_quantity (?ms j)"
      using Cons.prems(2)[rule_format, of j] q0 by (simp add: step)
  qed
  have rest: "\<forall>item\<in>set items. 0 \<le> quantity_ordered item" using Cons.prems(1) by simp
  have IH: "total_quantity (reserve_items ?ms items k) = total_quantity (?ms k)
       \<and> available_quantity (reserve_items ?ms items k)
           = available_quantity (?ms k) - ordered_total items k
       \<and> hired_quantity (reserve_items ?ms items k)
           = hired_quantity (?ms k) + ordered_total items k"
    by (rule Cons.IH[OF rest le'])
  show ?case
    using IH by (auto simp: step ordered_total_Cons)
qed

lemma reserve_items_ok_iff:
  assumes ok: "\<forall>k. ledger_ok (ms k)"
    and q0: "\<forall>item\<in>set items. 0 \<le> quantity_ordered item"
  shows "(\<forall>k. ledger_ok (reserve_items ms items k))
           \<longleftrightarrow> (\<forall>k. ordered_total items k \<le> available_quantity (ms k))"
proof -
  have le: "\<forall>k. available_quantity (ms k) \<le> total_quantity (ms k)"
    using ok by (simp add: ledger_ok_def)
  have "ledger_ok (reserve_items ms items k)
          \<longleftrightarrow> ordered_total items k \<le> available_quantity (ms k)" for k
    using reserve_items_fields[OF q0 le, of k] ok[rule_format, of k]
          ordered_total_nonneg[OF q0, of k]
    by (auto simp: ledger_ok_def)
  then show ?thesis by simp
qed

subsection \<open>The release at RETURNED\<close>

text \<open>
  The loop at RETURNED takes the dispatched quantities from hired_quantity and adds the
  returned quantities to available_quantity, which \<^verbatim>\<open>Material.save\<close> caps at
  total_quantity after every item.
\<close>

lemma release_returned_item_effect:
  "total_quantity (release_returned_item ms item k) = total_quantity (ms k)"
  "hired_quantity (release_returned_item ms item k)
     = hired_quantity (ms k) - (if item_material item = k then quantity_dispatched item else 0)"
  "available_quantity (release_returned_item ms item k)
     = (if item_material item = k
        then min (total_quantity (ms k)) (available_quantity (ms k) + quantity_returned item)
        else available_quantity (ms k))"
  by (auto simp: release_returned_item_def Material_save_def Let_def)

lemma release_returned_effect:
  assumes "\<forall>item\<in>set items. 0 \<le> quantity_returned item"
    and "\<forall>k. available_quantity (ms k) \<le> total_quantity (ms k)"
  shows "total_quantity (release_returned ms items k) = total_quantity (ms k)
       \<and> hired_quantity (release_returned ms items k)
           = hired_quantity (ms k) - dispatched_total items k
       \<and> available_quantity (release_returned ms items k)
           = min (total_quantity (ms k)) (available_quantity (ms k) + returned_total items k)"
  using assms
proof (induction items arbitrary: ms)
  case Nil
  then show ?case by (simp add: returned_total_def dispatched_total_def)
next
  case (Cons item items)
  let ?ms = "release_returned_item ms item"
  note step = release_returned_item_effect[of ms item]
  have rest: "\<forall>item\<in>set items. 0 \<le> quantity_returned item" using Cons.prems(1) by simp
  have rest0: "0 \<le> returned_total items k" by (rule returned_total_nonneg[OF rest])
  have le': "\<forall>j. available_quantity (?ms j) \<le> total_quantity (?ms j)"
  proof
    fix j
    show "available_quantity (?ms j) \<le> total_quantity (?ms j)"
      using Cons.prems(2)[rule_format, of j] by (simp add: step)
  qed
  have IH: "total_quantity (release_returned ?ms items k) = total_quantity (?ms k)
       \<and> hired_quantity (release_returned ?ms items k)
           = hired_quantity (?ms k) - dispatched_total items k
       \<and> available_quantity (release_returned ?ms items k)
           = min (total_quantity (?ms k)) (available_quantity (?ms k) + returned_total items k)"
    by (rule Cons.IH[OF rest le'])
  show ?case
    using IH rest0 by (auto simp: step returned_total_Cons dispatched_total_Cons min_def)
qed

lemma release_returned_ok_iff:
  assumes ok: "\<forall>k. ledger_ok (ms k)"
    and r0: "\<forall>item\<in>set items. 0 \<le> quantity_returned item"
  shows "(\<forall>k. ledger_ok (release_returned ms items k))
           \<longleftrightarrow> (\<forall>k. dispatched_total items k
                        = min (returned_total items k) (hired_quantity (ms k)))"
proof -
  have le: "\<forall>k. available_quantity (ms k) \<le> total_quantity (ms k)"
    using ok by (simp add: ledger_ok_def)
  have "ledger_ok (release_returned ms items k)
          \<longleftrightarrow> dispatched_total items k = min (returned_total items k) (hired_quantity (ms k))"
    for k
    using release_returned_effect[OF r0 le, of k] ok[rule_format, of k]
          returned_total_nonneg[OF r0, of k]
    by (auto simp: ledger_ok_def min_def)
  then show ?thesis by simp
qed

text \<open>The same loop when nothing is capped, and the loop of the API method.\<close>

lemma release_returned_item_fields:
  assumes "available_quantity (ms (item_material item)) + quantity_returned item
             \<le> total_quantity (ms (item_material item))"
  shows "total_quantity (release_returned_item ms item k) = total_quantity (ms k)"
    and "available_quantity (release_returned_item ms item k)
           = available_quantity (ms k) + (if item_material item = k then quantity_returned item else 0)"
    and "hired_quantity (release_returned_item ms item k)
           = hired_quantity (ms k) - (if item_material item = k then quantity_dispatched item else 0)"
  using assms by (auto simp: release_returned_item_def Material_save_def Let_def)

lemma api_return_item_fields:
  assumes "available_quantity (ms (item_material item)) + quantity_dispatched item
             \<le> total_quantity (ms (item_material item))"
  shows "total_quantity (api_return_item ms item k) = total_quantity (ms k)"
    and "available_quantity (api_return_item ms item k)
           = available_quantity (ms k) + (if item_material item = k then quantity_dispatched item else 0)"
    and "hired_quantity (api_return_item ms item k)
           = hired_quantity (ms k) - (if item_material item = k then quantity_dispatched item else 0)"
  using assms by (auto simp: api_return_item_def Material_save_def Let_def)

lemma release_returned_fields:
  assumes "\<forall>item\<in>set items. 0 \<le> quantity_returned item"
    and "\<forall>k. available_quantity (ms k) + returned_total items k \<le> total_quantity (ms k)"
  shows "total_quantity (release_returned ms items k) = total_quantity (ms k)
       \<and> available_quantity (release_returned ms items k)
           = available_quantity (ms k) + returned_total items k
       \<and> hired_quantity (release_returned ms items k)
           = hired_quantity (ms k) - dispatched_total items k"
  using assms
proof (induction items arbitrary: ms)
  case Nil
  then show ?case by (simp add: returned_total_def dispatched_total_def)
next
  case (Cons item items)
  let ?m = "item_material item"
  let ?ms = "release_returned_item ms item"
  have rest0: "0 \<le> returned_total items ?m"
    using Cons.prems(1) by (intro returned_total_nonneg) simp
  have nocap: "available_quantity (ms ?m) + quantity_returned item \<le> total_quantity (ms ?m)"
    using Cons.prems(2)[rule_format, of ?m] rest0 by (simp add: returned_total_Cons)
  note step = release_returned_item_fields[of ms item, OF nocap]
  have room: "\<forall>j. available_quantity (?ms j) + returned_total items j \<le> total_quantity (?ms j)"
  proof
    fix j
    show "available_quantity (?ms j) + returned_total items j \<le> total_quantity (?ms j)"
      using Cons.prems(2)[rule_format, of j]
      by (auto simp: step returned_total_Cons split: if_splits)
  qed
  have IH: "total_quantity (release_returned ?ms items k) = total_quantity (?ms k)
       \<and> available_quantity (release_returned ?ms items k)
           = available_quantity (?ms k) + returned_total items k
       \<and> hired_quantity (release_returned ?ms items k)
           = hired_quantity (?ms k) - dispatched_total items k"
    using Cons.IH[OF _ room] Cons.prems(1) by simp
  show ?case
    using IH by (auto simp: step returned_total_Cons dispatched_total_Cons)
qed

lemma api_return_items_fields:
  assumes "\<forall>item\<in>set items. 0 \<le> quantity_dispatched item"
    and "\<forall>k. available_quantity (ms k) + dispatched_total items k \<le> total_quantity (ms k)"
  shows "total_quantity (api_return_items ms items k) = total_quantity (ms k)
       \<and> available_quantity (api_return_items ms items k)
           = available_quantity (ms k) + dispatched_total items k
       \<and> hired_quantity (api_return_items ms items k)
           = hired_quantity (ms k) - dispatched_total items k"
  using assms
proof (induction items arbitrary: ms)
  case Nil
  then show ?case by (simp add: dispatched_total_def)
next
  case (Cons item items)
  let ?m = "item_material item"
  let ?ms = "api_return_item ms item"
  have rest0: "0 \<le> dispatched_total items ?m"
    using Cons.prems(1) by (intro dispatched_total_nonneg) simp
  have nocap: "available_quantity (ms ?m) + quantity_dispatched item \<le> total_quantity (ms ?m)"
    using Cons.prems(2)[rule_format, of ?m] rest0 by (simp add: dispatched_total_Cons)
  note step = api_return_item_fields[of ms item, OF nocap]
  have room: "\<forall>j. available_quantity (?ms j) + dispatched_total items j \<le> total_quantity (?ms j)"
  proof
    fix j
    show "available_quantity (?ms j) + dispatched_total items j \<le> total_quantity (?ms j)"
      using Cons.prems(2)[rule_format, of j]
      by (auto simp: step dispatched_total_Cons split: if_splits)
  qed
  have IH: "total_quantity (api_return_items ?ms items k) = total_quantity (?ms k)
       \<and> available_quantity (api_return_items ?ms items k)
           = available_quantity (?ms k) + dispatched_total items k
       \<and> hired_quantity (api_return_items ?ms items k)
           = hired_quantity (?ms k) - dispatched_total items k"
    using Cons.IH[OF _ room] Cons.prems(1) by simp
  show ?case
    using IH by (auto simp: step dispatched_total_Cons)
qed

lemma returned_total_eq_dispatched:
  "\<forall>item\<in>set items. quantity_returned item = quantity_dispatched item
     \<Longrightarrow> returned_total items k = dispatched_total items k"
  by (induction items) (auto simp: returned_total_def dispatched_total_def)

subsection \<open>The release at COMPLETED\<close>

text \<open>
  The loop at COMPLETED touches hired_quantity only: every item with more dispatched than
  returned takes the difference from it.
\<close>

lemma release_completed_item_fields:
  assumes "available_quantity (ms (item_material item)) \<le> total_quantity (ms (item_material item))"
  shows "total_quantity (release_completed_item ms item k) = total_quantity (ms k)"
    and "available_quantity (release_completed_item ms item k) = available_quantity (ms k)"
    and "hired_quantity (release_completed_item ms item k)
           = hired_quantity (ms k)
             - (if item_material item = k \<and> quantity_dispatched item > quantity_returned item
                then quantity_dispatched item - quantity_returned item else 0)"
  using assms by (auto simp: release_completed_item_def Material_save_def Let_def)

lemma release_completed_fields:
  assumes "\<forall>k. available_quantity (ms k) \<le> total_quantity (ms k)"
  shows "total_quantity (release_completed ms items k) = total_quantity (ms k)
       \<and> available_quantity (release_completed ms items k) = available_quantity (ms k)
       \<and> hired_quantity (release_completed ms items k)
           = hired_quantity (ms k) - written_off_total items k"
  using assms
proof (induction items arbitrary: ms)
  case Nil
  then show ?case by (simp add: written_off_total_def)
next
  case (Cons item items)
  let ?ms = "release_completed_item ms item"
  have le: "available_quantity (ms (item_material item)) \<le> total_quantity (ms (item_material item))"
    using Cons.prems by blast
  note step = release_completed_item_fields[of ms item, OF le]
  have le': "\<forall>j. available_quantity (?ms j) \<le> total_quantity (?ms j)"
    using Cons.prems by (simp add: step)
  have IH: "total_quantity (release_completed ?ms items k) = total_quantity (?ms k)
       \<and> available_quantity (release_completed ?ms items k) = available_quantity (?ms k)
       \<and> hired_quantity (release_completed ?ms items k)
           = hired_quantity (?ms k) - written_off_total items k"
    by (rule Cons.IH[OF le'])
  show ?case
    using IH by (auto simp: step written_off_total_Cons)
qed

lemma written_off_total_zero_iff:
  "(\<forall>k. written_off_total items k = 0)
     \<longleftrightarrow> (\<forall>item\<in>set items. quantity_dispatched item \<le> quantity_returned item)"
proof (induction items)
  case Nil
  then show ?case by (simp add: written_off_total_def)
next
  case (Cons item items)
  have split: "(\<forall>k. written_off_total (item # items) k = 0)
                 \<longleftrightarrow> quantity_dispatched item \<le> quantity_returned item
                     \<and> (\<forall>k. written_off_total items k = 0)"
  proof
    assume all: "\<forall>k. written_off_total (item # items) k = 0"
    have here: "written_off_total (item # items) (item_material item) = 0" using all by blast
    have le: "quantity_dispatched item \<le> quantity_returned item"
      using here written_off_total_nonneg[of items "item_material item"]
      by (simp add: written_off_total_Cons split: if_splits)
    have "written_off_total items k = 0" for k
      using all[rule_format, of k] le by (simp add: written_off_total_Cons)
    then show "quantity_dispatched item \<le> quantity_returned item
                 \<and> (\<forall>k. written_off_total items k = 0)"
      using le by blast
  next
    assume "quantity_dispatched item \<le> quantity_returned item
              \<and> (\<forall>k. written_off_total items k = 0)"
    then show "\<forall>k. written_off_total (item # items) k = 0"
      by (simp add: written_off_total_Cons)
  qed
  show ?case using Cons.IH by (simp add: split)
qed

lemma release_completed_ok_iff:
  assumes ok: "\<forall>k. ledger_ok (ms k)"
  shows "(\<forall>k. ledger_ok (release_completed ms items k))
           \<longleftrightarrow> (\<forall>item\<in>set items. quantity_dispatched item \<le> quantity_returned item)"
proof -
  have le: "\<forall>k. available_quantity (ms k) \<le> total_quantity (ms k)"
    using ok by (simp add: ledger_ok_def)
  have "ledger_ok (release_completed ms items k) \<longleftrightarrow> written_off_total items k = 0" for k
    using release_completed_fields[OF le, of items k] ok[rule_format, of k]
    by (auto simp: ledger_ok_def)
  then have "(\<forall>k. ledger_ok (release_completed ms items k))
               \<longleftrightarrow> (\<forall>k. written_off_total items k = 0)"
    by simp
  then show ?thesis by (simp only: written_off_total_zero_iff)
qed

subsection \<open>Manual stock adjustment\<close>

lemma material_adjust_stock_ok:
  assumes "\<forall>k. ledger_ok (ms k)"
  shows "ledger_ok (snd (material_adjust_stock request ms pk adjustment_type qty reason) k)"
  using assms[rule_format, of k] assms[rule_format, of pk]
  by (auto simp: material_adjust_stock_def MaterialAdjustmentForm_is_valid_def ledger_ok_def
                 Material_save_def Let_def)

subsection \<open>The invariant\<close>

text \<open>
  C1 (as stated, refuted). The scenario of the specification itself: a material with
  total 100, available 60 and hired 40, and an ACTIVE order holding one item with 40
  dispatched and 35 returned. After the RETURNED transition the material has available 95
  and hired 0, and available + hired is 95, not 100. The COMPLETED transition that follows
  takes the 5 missing units from hired_quantity once more: hired is -5 and the sum 90.
\<close>

theorem returned_transition_breaks_ledger:
  "ledger_ok (\<lparr>total_quantity = 100, available_quantity = 60, hired_quantity = 40\<rparr>)
   \<and> order_update_status \<lparr>is_authenticated = True, is_post = True, form_is_valid = True\<rparr> 0
        \<lparr>materials = stock_of \<lparr>total_quantity = 100, available_quantity = 60, hired_quantity = 40\<rparr>,
         quotations = [], quotation_items = [],
         hire_orders = [\<lparr>order_pk = 1, order_quotation = 1, order_status = ''ACTIVE'',
                         actual_return_date = None\<rparr>],
         hire_order_items = [\<lparr>hire_order = 1, item_material = 1, quantity_ordered = 40,
                              quantity_dispatched = 40, quantity_returned = 35\<rparr>]\<rparr>
        1 ''RETURNED''
     = (Success,
        \<lparr>materials = (stock_of \<lparr>total_quantity = 100, available_quantity = 60, hired_quantity = 40\<rparr>)
                       (1 := \<lparr>total_quantity = 100, available_quantity = 95, hired_quantity = 0\<rparr>),
         quotations = [], quotation_items = [],
         hire_orders = [\<lparr>order_pk = 1, order_quotation = 1, order_status = ''RETURNED'',
                         actual_return_date = Some 0\<rparr>],
         hire_order_items = [\<lparr>hire_order = 1, item_material = 1, quantity_ordered = 40,
                              quantity_dispatched = 40, quantity_returned = 35\<rparr>]\<rparr>)
   \<and> \<not> ledger_ok \<lparr>total_quantity = 100, available_quantity = 95, hired_quantity = 0\<rparr>
   \<and> order_update_status \<lparr>is_authenticated = True, is_post = True, form_is_valid = True\<rparr> 0
        \<lparr>materials = (stock_of \<lparr>total_quantity = 100, available_quantity = 60, hired_quantity = 40\<rparr>)
                       (1 := \<lparr>total_quantity = 100, available_quantity = 95, hired_quantity = 0\<rparr>),
         quotations = [], quotation_items = [],
         hire_orders = [\<lparr>order_pk = 1, order_quotation = 1, order_status = ''RETURNED'',
                         actual_return_date = Some 0\<rparr>],
         hire_order_items = [\<lparr>hire_order = 1, item_material = 1, quantity_ordered = 40,
                              quantity_dispatched = 40, quantity_returned = 35\<rparr>]\<rparr>
        1 ''COMPLETED''
     = (Success,
        \<lparr>materials = (stock_of \<lparr>total_quantity = 100, available_quantity = 60, hired_quantity = 40\<rparr>)
                       (1 := \<lparr>total_quantity = 100, available_quantity = 95, hired_quantity = - 5\<rparr>),
         quotations = [], quotation_items = [],
         hire_orders = [\<lparr>order_pk = 1, order_quotation = 1, order_status = ''COMPLETED'',
                         actual_return_date = Some 0\<rparr>],
         hire_order_items = [\<lparr>hire_order = 1, item_material = 1, quantity_ordered = 40,
                              quantity_dispatched = 40, quantity_returned = 35\<rparr>]\<rparr>)
   \<and> \<not> ledger_ok \<lparr>total_quantity = 100, available_quantity = 95, hired_quantity = - 5\<rparr>"
  by (simp add: order_update_status_def get_order_def valid_transitions_def items_of_order_def
                release_returned_item_def release_completed_item_def Material_save_def
                update_order_def stock_of_def ledger_ok_def Let_def)

text \<open>
  C1 (amended). Let the ledger equation hold for every material, with both counters
  non-negative. Then
  \<^item> after the reservation loop of order creation, for quantities that are not negative,
    it holds for every material exactly when no material is asked for more than its
    available_quantity, all items of the order taken together;
  \<^item> after the release at RETURNED, for returned quantities that are not negative, it holds
    for every material exactly when what the items had dispatched of the material is the
    lesser of what they return of it and its hired_quantity: when all that was dispatched
    and not more than was hired out comes back, or when more comes back than was hired out
    and exactly that much had been dispatched;
  \<^item> after the release at COMPLETED it holds for every material exactly when no item has
    more dispatched than returned, that is, when the release changes nothing; in every
    case available + hired is then the total less what the release has written off;
  \<^item> after a manual stock adjustment it holds, whatever the outcome of the view.
\<close>

theorem ledger_preserved:
  assumes "\<forall>k. ledger_ok (ms k)"
  shows "((\<forall>item\<in>set items. 0 \<le> quantity_ordered item) \<longrightarrow>
            ((\<forall>k. ledger_ok (reserve_items ms items k))
               \<longleftrightarrow> (\<forall>k. ordered_total items k \<le> available_quantity (ms k))))
       \<and> ((\<forall>item\<in>set items. 0 \<le> quantity_returned item) \<longrightarrow>
            ((\<forall>k. ledger_ok (release_returned ms items k))
               \<longleftrightarrow> (\<forall>k. dispatched_total items k
                            = min (returned_total items k) (hired_quantity (ms k)))))
       \<and> ((\<forall>k. ledger_ok (release_completed ms items k))
            \<longleftrightarrow> (\<forall>item\<in>set items. quantity_dispatched item \<le> quantity_returned item))
       \<and> (\<forall>k. available_quantity (release_completed ms items k)
                 + hired_quantity (release_completed ms items k)
                = total_quantity (release_completed ms items k) - written_off_total items k)
       \<and> (\<forall>k. ledger_ok (snd (material_adjust_stock request ms pk adjustment_type qty reason) k))"
proof (intro conjI impI allI)
  assume "\<forall>item\<in>set items. 0 \<le> quantity_ordered item"
  then show "(\<forall>k. ledger_ok (reserve_items ms items k))
               \<longleftrightarrow> (\<forall>k. ordered_total items k \<le> available_quantity (ms k))"
    by (rule reserve_items_ok_iff[OF assms])
next
  assume "\<forall>item\<in>set items. 0 \<le> quantity_returned item"
  then show "(\<forall>k. ledger_ok (release_returned ms items k))
               \<longleftrightarrow> (\<forall>k. dispatched_total items k
                            = min (returned_total items k) (hired_quantity (ms k)))"
    by (rule release_returned_ok_iff[OF assms])
next
  show "(\<forall>k. ledger_ok (release_completed ms items k))
          \<longleftrightarrow> (\<forall>item\<in>set items. quantity_dispatched item \<le> quantity_returned item)"
    by (rule release_completed_ok_iff[OF assms])
next
  fix k
  have le: "\<forall>k. available_quantity (ms k) \<le> total_quantity (ms k)"
    using assms by (simp add: ledger_ok_def)
  show "available_quantity (release_completed ms items k)
          + hired_quantity (release_completed ms items k)
        = total_quantity (release_completed ms items k) - written_off_total items k"
    using release_completed_fields[OF le, of items k] assms[rule_format, of k]
    by (simp add: ledger_ok_def)
next
  fix k
  show "ledger_ok (snd (material_adjust_stock request ms pk adjustment_type qty reason) k)"
    by (rule material_adjust_stock_ok[OF assms])
qed

text \<open>
  The theorem at the scenario of the specification (total 100, available 60, hired 40; one
  item with 40 ordered, 40 dispatched and 35 returned): the reservation of 40 keeps the
  ledger, the releases at RETURNED and at COMPLETED do not; with all 40 returned both
  releases keep it.
\<close>

theorem ledger_preserved_witness:
  "(\<forall>k. ledger_ok (reserve_items (stock_of \<lparr>total_quantity = 100, available_quantity = 60, hired_quantity = 40\<rparr>)
        [\<lparr>hire_order = 1, item_material = 1, quantity_ordered = 40,
          quantity_dispatched = 40, quantity_returned = 35\<rparr>] k))
   \<and> \<not> (\<forall>k. ledger_ok (release_returned (stock_of \<lparr>total_quantity = 100, available_quantity = 60, hired_quantity = 40\<rparr>)
        [\<lparr>hire_order = 1, item_material = 1, quantity_ordered = 40,
          quantity_dispatched = 40, quantity_returned = 35\<rparr>] k))
   \<and> \<not> (\<forall>k. ledger_ok (release_completed (stock_of \<lparr>total_quantity = 100, available_quantity = 60, hired_quantity = 40\<rparr>)
        [\<lparr>hire_order = 1, item_material = 1, quantity_ordered = 40,
          quantity_dispatched = 40, quantity_returned = 35\<rparr>] k))
   \<and> (\<forall>k. ledger_ok (release_returned (stock_of \<lparr>total_quantity = 100, available_quantity = 60, hired_quantity = 40\<rparr>)
        [\<lparr>hire_order = 1, item_material = 1, quantity_ordered = 40,
          quantity_dispatched = 40, quantity_returned = 40\<rparr>] k))
   \<and> (\<forall>k. ledger_ok (release_completed (stock_of \<lparr>total_quantity = 100, available_quantity = 60, hired_quantity = 40\<rparr>)
        [\<lparr>hire_order = 1, item_material = 1, quantity_ordered = 40,
          quantity_dispatched = 40, quantity_returned = 40\<rparr>] k))
   \<and> ledger_ok (snd (material_adjust_stock \<lparr>is_authenticated = True, is_post = True, form_is_valid = True\<rparr>
        (stock_of \<lparr>total_quantity = 100, available_quantity = 60, hired_quantity = 40\<rparr>)
        1 ''REMOVE'' 60 ''stock count'') 1)"
proof -
  let ?ms = "stock_of \<lparr>total_quantity = 100, available_quantity = 60, hired_quantity = 40\<rparr>"
  let ?short = "[\<lparr>hire_order = 1, item_material = 1, quantity_ordered = 40,
                   quantity_dispatched = 40, quantity_returned = 35\<rparr>]"
  let ?full = "[\<lparr>hire_order = 1, item_material = 1, quantity_ordered = 40,
                  quantity_dispatched = 40, quantity_returned = 40\<rparr>]"
  let ?rq = "\<lparr>is_authenticated = True, is_post = True, form_is_valid = True\<rparr>"
  have ok: "\<forall>k. ledger_ok (?ms k)"
    by (simp add: stock_of_def ledger_ok_def)
  note short = ledger_preserved[OF ok, of ?short ?rq 1 "''REMOVE''" 60 "''stock count''"]
  note full = ledger_preserved[OF ok, of ?full ?rq 1 "''REMOVE''" 60 "''stock count''"]
  have q0: "\<forall>item\<in>set ?short. 0 \<le> quantity_ordered item" by simp
  have r0: "\<forall>item\<in>set ?short. 0 \<le> quantity_returned item" by simp
  have r0': "\<forall>item\<in>set ?full. 0 \<le> quantity_returned item" by simp
  have fits: "\<forall>k. ordered_total ?short k \<le> available_quantity (?ms k)"
    by (simp add: ordered_total_def stock_of_def)
  have less: "\<not> (\<forall>k. dispatched_total ?short k
                       = min (returned_total ?short k) (hired_quantity (?ms k)))"
    by (simp add: dispatched_total_def returned_total_def stock_of_def exI[of _ 1])
  have same: "\<forall>k. dispatched_total ?full k
                     = min (returned_total ?full k) (hired_quantity (?ms k))"
    by (simp add: dispatched_total_def returned_total_def stock_of_def)
  have missing: "\<not> (\<forall>item\<in>set ?short. quantity_dispatched item \<le> quantity_returned item)"
    by simp
  have returned: "\<forall>item\<in>set ?full. quantity_dispatched item \<le> quantity_returned item"
    by simp
  have c1: "\<forall>k. ledger_ok (reserve_items ?ms ?short k)"
    using short q0 fits by blast
  have c2: "\<not> (\<forall>k. ledger_ok (release_returned ?ms ?short k))"
    using short r0 less by blast
  have c3: "\<not> (\<forall>k. ledger_ok (release_completed ?ms ?short k))"
    using short missing by blast
  have c4: "\<forall>k. ledger_ok (release_returned ?ms ?full k)"
    using full r0' same by blast
  have c5: "\<forall>k. ledger_ok (release_completed ?ms ?full k)"
    using full returned by blast
  have c6: "ledger_ok (snd (material_adjust_stock ?rq ?ms 1 ''REMOVE'' 60 ''stock count'') 1)"
    using short by blast
  show ?thesis
    using c1 c2 c3 c4 c5 c6 by (intro conjI)
qed

section \<open>Returning an order through the API\<close>

text \<open>
  First the loop in the body of \<^verbatim>\<open>return_order\<close>, compared with the loop of the web
  view at RETURNED; then what a request to the route of the action runs.
\<close>

lemma get_order_pk: "get_order db pk = Some ord \<Longrightarrow> order_pk ord = pk"
  by (auto simp: get_order_def find_Some_iff)

lemma materials_update_order [simp]: "materials (update_order db ord) = materials db"
  by (simp add: update_order_def)

lemma items_of_order_update_order [simp]:
  "items_of_order (update_order db ord) pk = items_of_order db pk"
  by (simp add: update_order_def items_of_order_def)

lemma total_absent:
  "k \<notin> item_material ` set items \<Longrightarrow> returned_total items k = 0 \<and> dispatched_total items k = 0"
  by (induction items) (auto simp: returned_total_def dispatched_total_def)

lemma total_distinct:
  "distinct (map item_material items) \<Longrightarrow> item \<in> set items \<Longrightarrow>
     returned_total items (item_material item) = quantity_returned item
     \<and> dispatched_total items (item_material item) = quantity_dispatched item"
proof (induction items)
  case Nil
  then show ?case by simp
next
  case (Cons a items)
  show ?case
  proof (cases "item = a")
    case True
    have "item_material a \<notin> item_material ` set items" using Cons.prems(1) by simp
    then show ?thesis
      using True total_absent[of "item_material a" items]
      by (simp add: returned_total_Cons dispatched_total_Cons)
  next
    case False
    then have mem: "item \<in> set items" using Cons.prems(2) by simp
    have "item_material a \<notin> item_material ` set items" using Cons.prems(1) by simp
    then have "item_material item \<noteq> item_material a" using mem by (metis imageI)
    then show ?thesis
      using Cons.IH mem Cons.prems(1)
      by (simp add: returned_total_Cons dispatched_total_Cons)
  qed
qed

lemma totals_agree_iff:
  assumes "distinct (map item_material items)"
  shows "(\<forall>k. returned_total items k = dispatched_total items k)
           \<longleftrightarrow> (\<forall>item\<in>set items. quantity_returned item = quantity_dispatched item)"
proof
  assume all: "\<forall>k. returned_total items k = dispatched_total items k"
  show "\<forall>item\<in>set items. quantity_returned item = quantity_dispatched item"
  proof
    fix item assume "item \<in> set items"
    then show "quantity_returned item = quantity_dispatched item"
      using total_distinct[OF assms, of item] all by metis
  qed
next
  assume "\<forall>item\<in>set items. quantity_returned item = quantity_dispatched item"
  then show "\<forall>k. returned_total items k = dispatched_total items k"
    by (simp add: returned_total_eq_dispatched)
qed

lemma return_paths_agree_iff:
  assumes d0: "\<forall>item\<in>set items. 0 \<le> quantity_dispatched item"
    and r0: "\<forall>item\<in>set items. 0 \<le> quantity_returned item"
    and roomd: "\<forall>k. available_quantity (ms k) + dispatched_total items k \<le> total_quantity (ms k)"
    and roomr: "\<forall>k. available_quantity (ms k) + returned_total items k \<le> total_quantity (ms k)"
  shows "api_return_items ms items = release_returned ms items
           \<longleftrightarrow> (\<forall>k. returned_total items k = dispatched_total items k)"
proof
  assume eq: "api_return_items ms items = release_returned ms items"
  show "\<forall>k. returned_total items k = dispatched_total items k"
  proof
    fix k
    have "available_quantity (api_return_items ms items k)
            = available_quantity (release_returned ms items k)"
      using eq by simp
    then show "returned_total items k = dispatched_total items k"
      using api_return_items_fields[OF d0 roomd, of k] release_returned_fields[OF r0 roomr, of k]
      by simp
  qed
next
  assume all: "\<forall>k. returned_total items k = dispatched_total items k"
  show "api_return_items ms items = release_returned ms items"
  proof
    fix k
    show "api_return_items ms items k = release_returned ms items k"
      using api_return_items_fields[OF d0 roomd, of k] release_returned_fields[OF r0 roomr, of k] all
      by (intro Material.equality) simp_all
  qed
qed

text \<open>
  The body of \<^verbatim>\<open>return_order\<close> on an ACTIVE order, were the method called with a wrapped
  request: the order becomes RETURNED and the materials go through the loop above.
\<close>

lemma return_order_wrapped:
  assumes "get_order db pk = Some ord" and "order_status ord = ''ACTIVE''"
  shows "return_order RestRequest today db pk
           = (Success, (update_order db (ord\<lparr>order_status := ''RETURNED'',
                                               actual_return_date := Some today\<rparr>))
                         \<lparr>materials := api_return_items (materials db) (items_of_order db pk)\<rparr>)"
  using assms get_order_pk[OF assms(1)]
  by (simp add: return_order_def get_object_def Let_def)



section \<open>Order status changes\<close>

lemma get_order_update_order:
  "get_order db pk = Some ord \<Longrightarrow> order_pk ord' = pk
     \<Longrightarrow> get_order (update_order db ord') pk = Some ord'"
  unfolding get_order_def update_order_def
  by (induction "hire_orders db" arbitrary: db) (auto simp: find_Some_iff split: if_splits)

lemma get_order_materials [simp]: "get_order (db\<lparr>materials := ms\<rparr>) pk = get_order db pk"
  by (simp add: get_order_def)

lemma get_order_items [simp]: "get_order (db\<lparr>hire_order_items := its\<rparr>) pk = get_order db pk"
  by (simp add: get_order_def)


text \<open>
  The status of an order is written in three places: in the web view
  \<^verbatim>\<open>order_update_status\<close> and in the methods \<^verbatim>\<open>dispatch\<close> and \<^verbatim>\<open>return_order\<close> of
  \<^verbatim>\<open>HireOrderViewSet\<close>. The forms of \<^verbatim>\<open>order_create\<close> and \<^verbatim>\<open>order_update\<close> have no
  status field, and the order that a quotation is converted to is new. The method
  \<^verbatim>\<open>dispatch\<close> would take an order that is ORDERED to DISPATCHED if it came that far.
\<close>

lemma dispatch_wrapped:
  assumes "get_order db pk = Some ord" and "order_status ord = ''ORDERED''"
  shows "fst (HireOrderViewSet_dispatch RestRequest db pk) = Success"
    and "get_order (snd (HireOrderViewSet_dispatch RestRequest db pk)) pk
           = Some (ord\<lparr>order_status := ''DISPATCHED''\<rparr>)"
  using assms get_order_pk[OF assms(1)]
  by (simp_all add: HireOrderViewSet_dispatch_def get_object_def Let_def get_order_update_order)



section \<open>Order creation\<close>

lemma next_pk_Nil [simp]: "next_pk [] = Suc 0"
  by (simp add: next_pk_def)

text \<open>
  What the two quotation paths do guarantee: an item that asks for more than its material
  has available when the view starts stops the view before anything is written.
\<close>

lemma first_insufficient_Some:
  "item \<in> set items \<Longrightarrow> available_quantity (ms (qi_material item)) < quantity item
     \<Longrightarrow> \<exists>found. first_insufficient ms items = Some found"
  by (cases "first_insufficient ms items") (auto simp: first_insufficient_def find_None_iff)

lemma create_order_from_quotation_insufficient:
  assumes "item \<in> set (items_of_quotation db pk)"
    and "available_quantity (materials db (qi_material item)) < quantity item"
  shows "snd (create_order_from_quotation request db pk) = db"
proof (cases "get_quotation db pk")
  case None
  then show ?thesis by (simp add: create_order_from_quotation_def)
next
  case (Some quotation)
  then have pk: "quotation_pk quotation = pk"
    by (auto simp: get_quotation_def find_Some_iff)
  obtain found where "first_insufficient (materials db) (items_of_quotation db pk) = Some found"
    using first_insufficient_Some[of item "items_of_quotation db pk" "materials db"] assms by blast
  then show ?thesis
    using Some pk by (simp add: create_order_from_quotation_def)
qed

lemma convert_to_order_insufficient:
  assumes "item \<in> set (items_of_quotation db pk)"
    and "available_quantity (materials db (qi_material item)) < quantity item"
  shows "snd (convert_to_order rnd tax_rate request db pk) = db"
proof (cases "get_quotation db pk")
  case None
  then show ?thesis by (simp add: convert_to_order_def)
next
  case (Some quotation)
  then have pk: "quotation_pk quotation = pk"
    by (auto simp: get_quotation_def find_Some_iff)
  obtain found where "first_insufficient (materials db) (items_of_quotation db pk) = Some found"
    using first_insufficient_Some[of item "items_of_quotation db pk" "materials db"] assms by blast
  then show ?thesis
    using Some pk by (simp add: convert_to_order_def)
qed

text \<open>
  C3 (the code departs from the claim). A quotation with two items of the same material,
  3 units each, and a material with 5 available. Each item passes the check on its own
  (3 is not more than 5), the order is created, and the second reservation takes 3 from
  the 2 that are left: available_quantity ends at -1, hired_quantity at 6.
\<close>

theorem create_order_reserves_beyond_stock:
  "create_order_from_quotation \<lparr>is_authenticated = True, is_post = True, form_is_valid = True\<rparr>
     \<lparr>materials = stock_of \<lparr>total_quantity = 5, available_quantity = 5, hired_quantity = 0\<rparr>,
      quotations = [\<lparr>quotation_pk = 1, quotation_status = ''ACCEPTED'',
                      transport_cost = PyDecimal 0, subtotal = PyDecimal 0,
                      tax_amount = PyDecimal 0, total_amount = PyDecimal 0\<rparr>],
      quotation_items = [\<lparr>qi_quotation = 1, qi_material = 1, quantity = 3, daily_rate = 5,
                            duration_days = 30, line_total = 450\<rparr>,
                          \<lparr>qi_quotation = 1, qi_material = 1, quantity = 3, daily_rate = 5,
                            duration_days = 30, line_total = 450\<rparr>],
      hire_orders = [], hire_order_items = []\<rparr> 1
   = (Created,
     \<lparr>materials = (stock_of \<lparr>total_quantity = 5, available_quantity = 5, hired_quantity = 0\<rparr>)
                    (1 := \<lparr>total_quantity = 5, available_quantity = - 1, hired_quantity = 6\<rparr>),
      quotations = [\<lparr>quotation_pk = 1, quotation_status = ''ACCEPTED'',
                      transport_cost = PyDecimal 0, subtotal = PyDecimal 0,
                      tax_amount = PyDecimal 0, total_amount = PyDecimal 0\<rparr>],
      quotation_items = [\<lparr>qi_quotation = 1, qi_material = 1, quantity = 3, daily_rate = 5,
                            duration_days = 30, line_total = 450\<rparr>,
                          \<lparr>qi_quotation = 1, qi_material = 1, quantity = 3, daily_rate = 5,
                            duration_days = 30, line_total = 450\<rparr>],
      hire_orders = [\<lparr>order_pk = 1, order_quotation = 1, order_status = ''ORDERED'',
                      actual_return_date = None\<rparr>],
      hire_order_items = [\<lparr>hire_order = 1, item_material = 1, quantity_ordered = 3,
                            quantity_dispatched = 0, quantity_returned = 0\<rparr>,
                          \<lparr>hire_order = 1, item_material = 1, quantity_ordered = 3,
                            quantity_dispatched = 0, quantity_returned = 0\<rparr>]\<rparr>)"
  by (simp add: create_order_from_quotation_def get_quotation_def items_of_quotation_def
                first_insufficient_def new_order_def order_item_of_def items_of_order_def
                reserve_inventory_def Material_save_def stock_of_def Let_def)

text \<open>
  C6 (the code departs from the claim). A quotation is ACCEPTED and has one item of 2
  units. The web view creates an order from it and leaves the quotation ACCEPTED: it never
  stores CONVERTED. The API action, which looks at the status only, then creates a second
  order from the same quotation and reserves the 2 units again, whatever the tax setting
  is and whether or not saving the quotation raises afterwards.
\<close>

theorem quotation_converted_twice:
  "fst (create_order_from_quotation \<lparr>is_authenticated = True, is_post = True, form_is_valid = True\<rparr>
     \<lparr>materials = stock_of \<lparr>total_quantity = 10, available_quantity = 10, hired_quantity = 0\<rparr>,
      quotations = [\<lparr>quotation_pk = 1, quotation_status = ''ACCEPTED'',
                      transport_cost = PyDecimal 0, subtotal = PyDecimal 0,
                      tax_amount = PyDecimal 0, total_amount = PyDecimal 0\<rparr>],
      quotation_items = [\<lparr>qi_quotation = 1, qi_material = 1, quantity = 2, daily_rate = 5,
                            duration_days = 30, line_total = 300\<rparr>],
      hire_orders = [], hire_order_items = []\<rparr> 1) = Created
   \<and> map quotation_status (quotations (snd (create_order_from_quotation
     \<lparr>is_authenticated = True, is_post = True, form_is_valid = True\<rparr>
     \<lparr>materials = stock_of \<lparr>total_quantity = 10, available_quantity = 10, hired_quantity = 0\<rparr>,
      quotations = [\<lparr>quotation_pk = 1, quotation_status = ''ACCEPTED'',
                      transport_cost = PyDecimal 0, subtotal = PyDecimal 0,
                      tax_amount = PyDecimal 0, total_amount = PyDecimal 0\<rparr>],
      quotation_items = [\<lparr>qi_quotation = 1, qi_material = 1, quantity = 2, daily_rate = 5,
                            duration_days = 30, line_total = 300\<rparr>],
      hire_orders = [], hire_order_items = []\<rparr> 1))) = [''ACCEPTED'']
   \<and> map order_quotation (hire_orders (snd (convert_to_order rnd tax_rate
     \<lparr>is_authenticated = True, is_post = True, form_is_valid = True\<rparr>
     (snd (create_order_from_quotation
       \<lparr>is_authenticated = True, is_post = True, form_is_valid = True\<rparr>
       \<lparr>materials = stock_of \<lparr>total_quantity = 10, available_quantity = 10, hired_quantity = 0\<rparr>,
        quotations = [\<lparr>quotation_pk = 1, quotation_status = ''ACCEPTED'',
                        transport_cost = PyDecimal 0, subtotal = PyDecimal 0,
                        tax_amount = PyDecimal 0, total_amount = PyDecimal 0\<rparr>],
        quotation_items = [\<lparr>qi_quotation = 1, qi_material = 1, quantity = 2, daily_rate = 5,
                              duration_days = 30, line_total = 300\<rparr>],
        hire_orders = [], hire_order_items = []\<rparr> 1)) 1))) = [1, 1]
   \<and> materials (snd (convert_to_order rnd tax_rate
     \<lparr>is_authenticated = True, is_post = True, form_is_valid = True\<rparr>
     (snd (create_order_from_quotation
       \<lparr>is_authenticated = True, is_post = True, form_is_valid = True\<rparr>
       \<lparr>materials = stock_of \<lparr>total_quantity = 10, available_quantity = 10, hired_quantity = 0\<rparr>,
        quotations = [\<lparr>quotation_pk = 1, quotation_status = ''ACCEPTED'',
                        transport_cost = PyDecimal 0, subtotal = PyDecimal 0,
                        tax_amount = PyDecimal 0, total_amount = PyDecimal 0\<rparr>],
        quotation_items = [\<lparr>qi_quotation = 1, qi_material = 1, quantity = 2, daily_rate = 5,
                              duration_days = 30, line_total = 300\<rparr>],
        hire_orders = [], hire_order_items = []\<rparr> 1)) 1)) 1
     = \<lparr>total_quantity = 10, available_quantity = 6, hired_quantity = 4\<rparr>"
proof -
  let ?rq = "\<lparr>is_authenticated = True, is_post = True, form_is_valid = True\<rparr>"
  let ?q = "\<lparr>quotation_pk = 1, quotation_status = ''ACCEPTED'',
             transport_cost = PyDecimal 0, subtotal = PyDecimal 0,
             tax_amount = PyDecimal 0, total_amount = PyDecimal 0\<rparr>"
  let ?qi = "\<lparr>qi_quotation = 1, qi_material = 1, quantity = 2, daily_rate = 5,
              duration_days = 30, line_total = 300\<rparr>"
  let ?ms = "stock_of \<lparr>total_quantity = 10, available_quantity = 10, hired_quantity = 0\<rparr>"
  let ?db = "\<lparr>materials = ?ms, quotations = [?q], quotation_items = [?qi],
              hire_orders = [], hire_order_items = []\<rparr>"
  let ?ord = "\<lparr>order_pk = 1, order_quotation = 1, order_status = ''ORDERED'',
               actual_return_date = None\<rparr>"
  let ?oi = "\<lparr>hire_order = 1, item_material = 1, quantity_ordered = 2,
              quantity_dispatched = 0, quantity_returned = 0\<rparr>"
  let ?db1 = "\<lparr>materials = ?ms(1 := \<lparr>total_quantity = 10, available_quantity = 8, hired_quantity = 2\<rparr>),
               quotations = [?q], quotation_items = [?qi],
               hire_orders = [?ord], hire_order_items = [?oi]\<rparr>"
  have web: "create_order_from_quotation ?rq ?db 1 = (Created, ?db1)"
    by (simp add: create_order_from_quotation_def get_quotation_def items_of_quotation_def
                  first_insufficient_def new_order_def order_item_of_def items_of_order_def
                  reserve_inventory_def Material_save_def stock_of_def Let_def)
  have api_orders: "map order_quotation (hire_orders (snd (convert_to_order rnd tax_rate ?rq ?db1 1))) = [1, 1]"
    by (simp add: convert_to_order_def get_quotation_def items_of_quotation_def
                  first_insufficient_def new_order_def order_item_of_def next_pk_def
                  Quotation_save_def update_quotation_def
                  reserve_inventory_def Material_save_def stock_of_def Let_def
             split: sum.splits)
  have api_stock: "materials (snd (convert_to_order rnd tax_rate ?rq ?db1 1)) 1
                     = \<lparr>total_quantity = 10, available_quantity = 6, hired_quantity = 4\<rparr>"
    by (simp add: convert_to_order_def get_quotation_def items_of_quotation_def
                  first_insufficient_def new_order_def order_item_of_def next_pk_def
                  Quotation_save_def update_quotation_def
                  reserve_inventory_def Material_save_def stock_of_def Let_def
             split: sum.splits)
  show ?thesis
    unfolding web using api_orders api_stock by simp
qed

section \<open>Quotation totals\<close>

lemma py_sum_decimals:
  "py_sum rnd (PyDecimal a) (map PyDecimal xs) = Inr (PyDecimal (a + sum_list xs))"
  by (induction xs arbitrary: a) (simp_all add: py_add_def add.assoc)

lemma py_sum_line_totals:
  "py_sum rnd (PyInt 0) (map (\<lambda>item. PyDecimal (line_total item)) items)
     = Inr (if items = [] then PyInt 0 else PyDecimal (sum_list (map line_total items)))"
proof (cases items)
  case Nil
  then show ?thesis by simp
next
  case (Cons item rest)
  have "py_sum rnd (PyDecimal (line_total item)) (map PyDecimal (map line_total rest))
          = Inr (PyDecimal (line_total item + sum_list (map line_total rest)))"
    by (rule py_sum_decimals)
  then show ?thesis using Cons by (simp add: py_add_def comp_def)
qed

text \<open>
  With a Decimal tax rate the method computes what the specification says: the subtotal is
  the sum of the line totals plus the transport cost, the tax is the subtotal times the
  rate, the total is their sum.
\<close>

lemma calculate_totals_decimal_rate:
  assumes "transport_cost self = PyDecimal c"
  shows "calculate_totals rnd (PyDecimal t) items self
           = Inr (self\<lparr>subtotal := PyDecimal (sum_list (map line_total items) + c),
                       tax_amount := PyDecimal ((sum_list (map line_total items) + c) * t),
                       total_amount := PyDecimal ((sum_list (map line_total items) + c)
                                          + (sum_list (map line_total items) + c) * t)\<rparr>)"
  using assms
  by (simp add: calculate_totals_def py_sum_line_totals py_add_def py_mul_def)

text \<open>
  With the float that settings.py provides, the product of the Decimal subtotal and the
  rate raises: the subtotal is a Decimal as soon as the quotation has an item or a Decimal
  transport cost.
\<close>

lemma calculate_totals_float_rate:
  assumes "items \<noteq> [] \<or> (\<exists>c. transport_cost self = PyDecimal c)"
    and "\<forall>f. transport_cost self \<noteq> PyFloat f"
  shows "calculate_totals rnd (PyFloat r) items self = Inl TypeError"
  using assms
  by (cases "transport_cost self")
     (auto simp: calculate_totals_def py_sum_line_totals py_add_def py_mul_def)

text \<open>
  C4 (the code departs from the claim). The quotation of the specification: one item with
  quantity 100, daily rate 5 and 30 days, saved with line total 15000; transport cost 500;
  tax rate the float 0.15. The method raises TypeError and sets no total. With the rate as
  a Decimal it returns the totals the claim names: 15500, 2325 and 17825.
\<close>

theorem calculate_totals_raises:
  "line_total (QuotationItem_save \<lparr>qi_quotation = 1, qi_material = 1, quantity = 100,
       daily_rate = 5, duration_days = 30, line_total = 0\<rparr>) = 15000
   \<and> calculate_totals rnd (PyFloat (rnd (15 / 100)))
       [QuotationItem_save \<lparr>qi_quotation = 1, qi_material = 1, quantity = 100,
          daily_rate = 5, duration_days = 30, line_total = 0\<rparr>]
       \<lparr>quotation_pk = 1, quotation_status = ''DRAFT'', transport_cost = PyDecimal 500,
        subtotal = PyDecimal 0, tax_amount = PyDecimal 0, total_amount = PyDecimal 0\<rparr>
     = Inl TypeError
   \<and> calculate_totals rnd (PyDecimal (15 / 100))
       [QuotationItem_save \<lparr>qi_quotation = 1, qi_material = 1, quantity = 100,
          daily_rate = 5, duration_days = 30, line_total = 0\<rparr>]
       \<lparr>quotation_pk = 1, quotation_status = ''DRAFT'', transport_cost = PyDecimal 500,
        subtotal = PyDecimal 0, tax_amount = PyDecimal 0, total_amount = PyDecimal 0\<rparr>
     = Inr \<lparr>quotation_pk = 1, quotation_status = ''DRAFT'', transport_cost = PyDecimal 500,
            subtotal = PyDecimal 15500, tax_amount = PyDecimal 2325,
            total_amount = PyDecimal 17825\<rparr>"
  by (simp add: QuotationItem_save_def calculate_totals_def py_add_def py_mul_def)

section \<open>Credit notes\<close>

text \<open>
  C5 (as stated, refuted). A note of 200 is applied to a client whose balance is 1000:
  the balance becomes 800 and the note APPLIED. The same note, now APPLIED, is applied
  again: nothing fails and the balance becomes 600.
\<close>

theorem applied_note_applies_again:
  "apply_to_invoice
     \<lparr>clients = (table_of \<lparr>current_balance = 0\<rparr>)(1 := \<lparr>current_balance = 1000\<rparr>),
      credit_notes = [\<lparr>credit_note_pk = 1, cn_client = 1, cn_amount = 200, cn_status = ''ISSUED'',
                        applied_to_invoice = None, applied_date = None, applied_by = None\<rparr>]\<rparr>
     \<lparr>credit_note_pk = 1, cn_client = 1, cn_amount = 200, cn_status = ''ISSUED'',
      applied_to_invoice = None, applied_date = None, applied_by = None\<rparr> 7 3 0
   = (\<lparr>credit_note_pk = 1, cn_client = 1, cn_amount = 200, cn_status = ''APPLIED'',
       applied_to_invoice = Some 7, applied_date = Some 0, applied_by = Some 3\<rparr>,
      \<lparr>clients = (table_of \<lparr>current_balance = 0\<rparr>)(1 := \<lparr>current_balance = 800\<rparr>),
       credit_notes = [\<lparr>credit_note_pk = 1, cn_client = 1, cn_amount = 200, cn_status = ''APPLIED'',
                         applied_to_invoice = Some 7, applied_date = Some 0, applied_by = Some 3\<rparr>]\<rparr>)
   \<and> apply_to_invoice
     \<lparr>clients = (table_of \<lparr>current_balance = 0\<rparr>)(1 := \<lparr>current_balance = 800\<rparr>),
      credit_notes = [\<lparr>credit_note_pk = 1, cn_client = 1, cn_amount = 200, cn_status = ''APPLIED'',
                        applied_to_invoice = Some 7, applied_date = Some 0, applied_by = Some 3\<rparr>]\<rparr>
     \<lparr>credit_note_pk = 1, cn_client = 1, cn_amount = 200, cn_status = ''APPLIED'',
      applied_to_invoice = Some 7, applied_date = Some 0, applied_by = Some 3\<rparr> 7 3 0
   = (\<lparr>credit_note_pk = 1, cn_client = 1, cn_amount = 200, cn_status = ''APPLIED'',
       applied_to_invoice = Some 7, applied_date = Some 0, applied_by = Some 3\<rparr>,
      \<lparr>clients = (table_of \<lparr>current_balance = 0\<rparr>)(1 := \<lparr>current_balance = 600\<rparr>),
       credit_notes = [\<lparr>credit_note_pk = 1, cn_client = 1, cn_amount = 200, cn_status = ''APPLIED'',
                         applied_to_invoice = Some 7, applied_date = Some 0, applied_by = Some 3\<rparr>]\<rparr>)"
  by (simp add: apply_to_invoice_def CreditNote_save_def update_balance_def table_of_def Let_def)

text \<open>
  C5 (amended). Whatever the status of the note, \<^verbatim>\<open>apply_to_invoice\<close> sets the status
  to APPLIED, records the invoice, the date and the user, and lowers the balance of the
  note's client by the note's amount; no other client's balance changes.
\<close>

theorem apply_to_invoice_effect:
  "cn_status (fst (apply_to_invoice db self invoice user today)) = ''APPLIED''
   \<and> applied_to_invoice (fst (apply_to_invoice db self invoice user today)) = Some invoice
   \<and> applied_date (fst (apply_to_invoice db self invoice user today)) = Some today
   \<and> applied_by (fst (apply_to_invoice db self invoice user today)) = Some user
   \<and> current_balance (clients (snd (apply_to_invoice db self invoice user today)) (cn_client self))
       = current_balance (clients db (cn_client self)) - cn_amount self
   \<and> clients (snd (apply_to_invoice db self invoice user today))
       = (clients db)(cn_client self :=
            (clients db (cn_client self))\<lparr>current_balance :=
               current_balance (clients db (cn_client self)) - cn_amount self\<rparr>)"
  by (simp add: apply_to_invoice_def CreditNote_save_def update_balance_def Let_def)

section \<open>Confirming a payment\<close>

lemma invoices_Payment_save [simp]: "invoices (Payment_save db p) = invoices db"
  by (simp add: Payment_save_def)

lemma payments_invoices_update [simp]: "payments (db\<lparr>invoices := f\<rparr>) = payments db"
  by simp

lemma confirmed_total_invoices_update [simp]:
  "confirmed_total (db\<lparr>invoices := f\<rparr>) i = confirmed_total db i"
  by (simp add: confirmed_total_def)

lemma Payment_save_invoices_update:
  "Payment_save (db\<lparr>invoices := f\<rparr>) p = (Payment_save db p)\<lparr>invoices := f\<rparr>"
  by (simp add: Payment_save_def)

text \<open>Rewriting a row by one that agrees in invoice, amount and flag keeps the sums.\<close>

lemma sum_replace_same:
  assumes "payment_invoice q = payment_invoice p" "payment_amount q = payment_amount p"
    "confirmed q = confirmed p"
  shows "sum_list (map payment_amount (filter (\<lambda>r. payment_invoice r = i \<and> confirmed r)
            (map (\<lambda>r. if payment_pk r = k then q else r)
               (map (\<lambda>r. if payment_pk r = k then p else r) ps))))
       = sum_list (map payment_amount (filter (\<lambda>r. payment_invoice r = i \<and> confirmed r)
            (map (\<lambda>r. if payment_pk r = k then p else r) ps)))"
  using assms by (induction ps) auto

lemma map_replace_absent:
  "\<not> list_ex (\<lambda>r. payment_pk r = k) ps \<Longrightarrow> map (\<lambda>r. if payment_pk r = k then q else r) ps = ps"
  by (induction ps) auto

lemma list_ex_replace:
  "list_ex (\<lambda>r. payment_pk r = payment_pk p) ps
     \<Longrightarrow> list_ex (\<lambda>r. payment_pk r = payment_pk p)
           (map (\<lambda>r. if payment_pk r = payment_pk p then p else r) ps)"
  by (induction ps) auto

lemma confirmed_total_saved_again:
  assumes "payment_pk q = payment_pk p" "payment_invoice q = payment_invoice p"
    "payment_amount q = payment_amount p" "confirmed q = confirmed p"
  shows "confirmed_total (Payment_save (Payment_save db p) q) i
           = confirmed_total (Payment_save db p) i"
proof (cases "list_ex (\<lambda>r. payment_pk r = payment_pk p) (payments db)")
  case True
  then show ?thesis
    using assms list_ex_replace[OF True] sum_replace_same[OF assms(2,3,4), of i "payment_pk p" "payments db"]
    by (simp add: Payment_save_def confirmed_total_def)
next
  case False
  then show ?thesis
    using assms by (simp add: Payment_save_def confirmed_total_def map_replace_absent)
qed

lemma saved_payment_mem: "p \<in> set (payments (Payment_save db p))"
  by (induction "payments db" arbitrary: db)
     (auto simp: Payment_save_def list_ex_iff image_iff)

lemma saved_payment_amounts:
  "r \<in> set (payments (Payment_save db p)) \<Longrightarrow> r = p \<or> r \<in> set (payments db)"
  by (auto simp: Payment_save_def split: if_splits)

lemma member_le_sum_nonneg:
  fixes f :: "'a \<Rightarrow> rat"
  shows "x \<in> set xs \<Longrightarrow> \<forall>y\<in>set xs. 0 \<le> f y \<Longrightarrow> f x \<le> sum_list (map f xs)"
proof (induction xs)
  case Nil
  then show ?case by simp
next
  case (Cons a xs)
  have rest: "0 \<le> sum_list (map f xs)"
    using Cons.prems(2) by (intro sum_list_nonneg) auto
  show ?case
  proof (cases "x = a")
    case True
    then show ?thesis using rest by simp
  next
    case False
    then have "f x \<le> sum_list (map f xs)" using Cons by auto
    moreover have "0 \<le> f a" using Cons.prems(2) by simp
    ultimately show ?thesis by simp
  qed
qed

lemma confirmed_total_positive:
  assumes "0 < payment_amount p" "confirmed p" "\<forall>r\<in>set (payments db). 0 \<le> payment_amount r"
  shows "0 < confirmed_total (Payment_save db p) (payment_invoice p)"
proof -
  let ?rows = "filter (\<lambda>r. payment_invoice r = payment_invoice p \<and> confirmed r)
                 (payments (Payment_save db p))"
  have mem: "p \<in> set ?rows" using saved_payment_mem[of p db] assms(2) by simp
  have nonneg: "\<forall>r\<in>set ?rows. 0 \<le> payment_amount r"
    using saved_payment_amounts[of _ db p] assms(1,3) by fastforce
  have "payment_amount p \<le> sum_list (map payment_amount ?rows)"
    using member_le_sum_nonneg[OF mem nonneg] .
  then show ?thesis using assms(1) by (simp add: confirmed_total_def)
qed

text \<open>
  Saving an invoice whose amount_paid is \<open>t\<close> a second time, after the status has been
  derived from \<open>t\<close> once: nothing changes, unless the amount is not positive, the
  invoice was SENT and the due date has passed in between.
\<close>

lemma settle_paid:
  "t \<ge> invoice_total v \<Longrightarrow>
     Invoice_save d (v\<lparr>amount_paid := t, payment_status := ''PAID''\<rparr>)
       = v\<lparr>amount_paid := t, balance_due := invoice_total v - t, payment_status := ''PAID''\<rparr>"
  by (simp add: Invoice_save_def Let_def)

lemma settle_partial:
  "\<not> t \<ge> invoice_total v \<Longrightarrow> t > 0 \<Longrightarrow>
     Invoice_save d (v\<lparr>amount_paid := t, payment_status := ''PARTIAL''\<rparr>)
       = v\<lparr>amount_paid := t, balance_due := invoice_total v - t, payment_status := ''PARTIAL''\<rparr>"
  by (simp add: Invoice_save_def Let_def)

lemma settle_unpaid:
  "\<not> t \<ge> invoice_total v \<Longrightarrow> \<not> t > 0 \<Longrightarrow>
     Invoice_save d (v\<lparr>amount_paid := t\<rparr>)
       = v\<lparr>amount_paid := t, balance_due := invoice_total v - t,
           payment_status := (if due_date v < d \<and> payment_status v = ''SENT''
                              then ''OVERDUE'' else payment_status v)\<rparr>"
  by (simp add: Invoice_save_def Let_def)

lemma settled_invoice:
  "Invoice_save d
     (if t \<ge> invoice_total (v\<lparr>amount_paid := t\<rparr>)
      then (v\<lparr>amount_paid := t\<rparr>)\<lparr>payment_status := ''PAID''\<rparr>
      else if t > 0 then (v\<lparr>amount_paid := t\<rparr>)\<lparr>payment_status := ''PARTIAL''\<rparr>
      else v\<lparr>amount_paid := t\<rparr>)
   = v\<lparr>amount_paid := t, balance_due := invoice_total v - t,
       payment_status :=
         (if t \<ge> invoice_total v then ''PAID''
          else if t > 0 then ''PARTIAL''
          else if due_date v < d \<and> payment_status v = ''SENT'' then ''OVERDUE''
          else payment_status v)\<rparr>"
proof (cases "t \<ge> invoice_total v")
  case True
  then show ?thesis using settle_paid[OF True, of d] by simp
next
  case False
  show ?thesis
  proof (cases "t > 0")
    case True
    then show ?thesis using False settle_partial[OF False True, of d] by simp
  next
    case neg: False
    then show ?thesis using False settle_unpaid[OF False neg, of d] by simp
  qed
qed

lemma confirm_payment_result:
  "confirm_payment db self user now today
     = (self\<lparr>confirmed := True, confirmed_by := Some user, confirmation_date := Some now\<rparr>,
        (Payment_save db (self\<lparr>confirmed := True, confirmed_by := Some user,
                                confirmation_date := Some now\<rparr>))
          \<lparr>invoices := (invoices db)(payment_invoice self :=
             (invoices db (payment_invoice self))
               \<lparr>amount_paid := confirmed_total (Payment_save db (self\<lparr>confirmed := True,
                    confirmed_by := Some user, confirmation_date := Some now\<rparr>)) (payment_invoice self),
                balance_due := invoice_total (invoices db (payment_invoice self))
                  - confirmed_total (Payment_save db (self\<lparr>confirmed := True,
                    confirmed_by := Some user, confirmation_date := Some now\<rparr>)) (payment_invoice self),
                payment_status :=
                  (if confirmed_total (Payment_save db (self\<lparr>confirmed := True,
                        confirmed_by := Some user, confirmation_date := Some now\<rparr>)) (payment_invoice self)
                        \<ge> invoice_total (invoices db (payment_invoice self)) then ''PAID''
                   else if confirmed_total (Payment_save db (self\<lparr>confirmed := True,
                        confirmed_by := Some user, confirmation_date := Some now\<rparr>)) (payment_invoice self)
                        > 0 then ''PARTIAL''
                   else if due_date (invoices db (payment_invoice self)) < today
                           \<and> payment_status (invoices db (payment_invoice self)) = ''SENT''
                        then ''OVERDUE''
                   else payment_status (invoices db (payment_invoice self)))\<rparr>)\<rparr>)"
  unfolding confirm_payment_def Let_def
  by (simp only: settled_invoice invoices_Payment_save) simp

text \<open>
  C7. \<^verbatim>\<open>confirm_payment\<close> stores the payment as confirmed, and stores as the
  amount_paid of its invoice the sum of the amounts of those payments in the table that
  belong to this invoice and are confirmed, no others. Confirming the payment a second
  time, by any user at any time, leaves amount_paid and balance_due of every invoice as
  the first confirmation left them; and the whole invoice table, payment_status included,
  when the payment amounts are what their validator admits (this one positive, none
  negative) or when both confirmations fall on the same day.
\<close>

theorem confirm_payment_idempotent:
  assumes c1: "confirm_payment db self user now today = (self1, db1)"
    and c2: "confirm_payment db1 self1 user' now' today' = (self2, db2)"
  shows "confirmed self1 \<and> self1 \<in> set (payments db1)
       \<and> amount_paid (invoices db1 (payment_invoice self))
           = sum_list (map payment_amount
               (filter (\<lambda>p. payment_invoice p = payment_invoice self \<and> confirmed p)
                       (payments db1)))
       \<and> amount_paid (invoices db2 i) = amount_paid (invoices db1 i)
       \<and> balance_due (invoices db2 i) = balance_due (invoices db1 i)
       \<and> ((0 < payment_amount self \<and> (\<forall>p\<in>set (payments db). 0 \<le> payment_amount p))
            \<or> today' = today
           \<longrightarrow> invoices db2 = invoices db1)"
proof -
  define s1 where "s1 = self\<lparr>confirmed := True, confirmed_by := Some user,
                              confirmation_date := Some now\<rparr>"
  define s2 where "s2 = s1\<lparr>confirmed := True, confirmed_by := Some user',
                            confirmation_date := Some now'\<rparr>"
  define j where "j = payment_invoice self"
  define t where "t = confirmed_total (Payment_save db s1) j"
  define v where "v = invoices db j"
  define st1 where "st1 = (if t \<ge> invoice_total v then ''PAID''
                           else if t > 0 then ''PARTIAL''
                           else if due_date v < today \<and> payment_status v = ''SENT'' then ''OVERDUE''
                           else payment_status v)"
  define v1 where "v1 = v\<lparr>amount_paid := t, balance_due := invoice_total v - t,
                           payment_status := st1\<rparr>"
  define st2 where "st2 = (if t \<ge> invoice_total v then ''PAID''
                           else if t > 0 then ''PARTIAL''
                           else if due_date v < today' \<and> st1 = ''SENT'' then ''OVERDUE''
                           else st1)"
  have r1: "confirm_payment db self user now today
              = (s1, (Payment_save db s1)\<lparr>invoices := (invoices db)(j := v1)\<rparr>)"
    unfolding s1_def j_def t_def v_def st1_def v1_def by (rule confirm_payment_result)
  have self1: "self1 = s1" and db1: "db1 = (Payment_save db s1)\<lparr>invoices := (invoices db)(j := v1)\<rparr>"
    using c1 r1 by auto
  have js: "payment_invoice s1 = j" by (simp add: s1_def j_def)
  have same: "payment_pk s2 = payment_pk s1" "payment_invoice s2 = payment_invoice s1"
    "payment_amount s2 = payment_amount s1" "confirmed s2 = confirmed s1"
    by (simp_all add: s2_def s1_def)
  have t2: "confirmed_total (Payment_save db1 s2) j = t"
    unfolding db1 t_def
    by (simp add: Payment_save_invoices_update confirmed_total_saved_again[OF same])
  have r2: "confirm_payment db1 s1 user' now' today'
              = (s2, (Payment_save db1 s2)\<lparr>invoices := (invoices db1)(j :=
                   (invoices db1 j)\<lparr>amount_paid := t,
                      balance_due := invoice_total (invoices db1 j) - t,
                      payment_status :=
                        (if t \<ge> invoice_total (invoices db1 j) then ''PAID''
                         else if t > 0 then ''PARTIAL''
                         else if due_date (invoices db1 j) < today'
                                 \<and> payment_status (invoices db1 j) = ''SENT'' then ''OVERDUE''
                         else payment_status (invoices db1 j))\<rparr>)\<rparr>)"
    using confirm_payment_result[of db1 s1 user' now' today'] t2
    by (simp only: js s2_def)
  have inv1: "invoices db1 j = v1" by (simp add: db1)
  have db2: "invoices db2 = (invoices db)(j := v1\<lparr>payment_status := st2\<rparr>)"
    using c2 r2 unfolding self1
    by (auto simp: inv1 v1_def st2_def db1)
  have i1: "invoices db1 = (invoices db)(j := v1)" by (simp add: db1)
  have tot1: "confirmed_total db1 j = t" by (simp add: db1 t_def)
  have p1: "confirmed self1" by (simp add: self1 s1_def)
  have p1': "self1 \<in> set (payments db1)"
    unfolding self1 db1 using saved_payment_mem[of s1 db] by simp
  have "amount_paid (invoices db1 j) = confirmed_total db1 j"
    using tot1 by (simp add: i1 v1_def)
  then have p2: "amount_paid (invoices db1 (payment_invoice self))
                   = sum_list (map payment_amount
                       (filter (\<lambda>p. payment_invoice p = payment_invoice self \<and> confirmed p)
                               (payments db1)))"
    by (simp only: j_def confirmed_total_def)
  have p3: "amount_paid (invoices db2 i) = amount_paid (invoices db1 i)"
    by (simp add: db2 i1)
  have p4: "balance_due (invoices db2 i) = balance_due (invoices db1 i)"
    by (simp add: db2 i1)
  have p5: "invoices db2 = invoices db1"
    if cond: "(0 < payment_amount self \<and> (\<forall>p\<in>set (payments db). 0 \<le> payment_amount p)) \<or> today' = today"
  proof -
    have "st2 = st1"
    proof (cases "0 < t \<or> t \<ge> invoice_total v")
      case True
      then show ?thesis by (auto simp: st2_def st1_def)
    next
      case False
      have "\<not> (0 < payment_amount self \<and> (\<forall>p\<in>set (payments db). 0 \<le> payment_amount p))"
      proof
        assume pos: "0 < payment_amount self \<and> (\<forall>p\<in>set (payments db). 0 \<le> payment_amount p)"
        have "0 < confirmed_total (Payment_save db s1) (payment_invoice s1)"
          using pos by (intro confirmed_total_positive) (simp_all add: s1_def)
        then show False using False by (simp add: t_def js)
      qed
      then have "today' = today" using cond by blast
      then show ?thesis using False by (auto simp: st2_def st1_def)
    qed
    then show ?thesis by (simp add: db2 i1 v1_def)
  qed
  show ?thesis using p1 p1' p2 p3 p4 p5 by blast
qed

text \<open>
  The theorem at an invoice of 300 with four payments in the table: the payment of 100
  that is confirmed, another payment of 50 of the same invoice that is not confirmed, a
  confirmed payment of 70 of another invoice, and a confirmed payment of 30 of the same
  invoice. After the confirmation the invoice has 130 paid and 170 due, and after the
  second confirmation it has the same.
\<close>

theorem confirm_payment_idempotent_witness:
  "invoices (snd (confirm_payment
      (snd (confirm_payment
         \<lparr>invoices = table_of \<lparr>invoice_total = 300, amount_paid = 0, balance_due = 300,
                                 payment_status = ''SENT'', due_date = 10\<rparr>,
          payments = [\<lparr>payment_pk = 1, payment_invoice = 1, payment_amount = 100,
                        confirmed = False, confirmed_by = None, confirmation_date = None\<rparr>,
                      \<lparr>payment_pk = 2, payment_invoice = 1, payment_amount = 50,
                        confirmed = False, confirmed_by = None, confirmation_date = None\<rparr>,
                      \<lparr>payment_pk = 3, payment_invoice = 2, payment_amount = 70,
                        confirmed = True, confirmed_by = Some 3, confirmation_date = Some 2\<rparr>,
                      \<lparr>payment_pk = 4, payment_invoice = 1, payment_amount = 30,
                        confirmed = True, confirmed_by = Some 3, confirmation_date = Some 2\<rparr>]\<rparr>
         \<lparr>payment_pk = 1, payment_invoice = 1, payment_amount = 100,
          confirmed = False, confirmed_by = None, confirmation_date = None\<rparr> 3 5 5))
      (fst (confirm_payment
         \<lparr>invoices = table_of \<lparr>invoice_total = 300, amount_paid = 0, balance_due = 300,
                                 payment_status = ''SENT'', due_date = 10\<rparr>,
          payments = [\<lparr>payment_pk = 1, payment_invoice = 1, payment_amount = 100,
                        confirmed = False, confirmed_by = None, confirmation_date = None\<rparr>,
                      \<lparr>payment_pk = 2, payment_invoice = 1, payment_amount = 50,
                        confirmed = False, confirmed_by = None, confirmation_date = None\<rparr>,
                      \<lparr>payment_pk = 3, payment_invoice = 2, payment_amount = 70,
                        confirmed = True, confirmed_by = Some 3, confirmation_date = Some 2\<rparr>,
                      \<lparr>payment_pk = 4, payment_invoice = 1, payment_amount = 30,
                        confirmed = True, confirmed_by = Some 3, confirmation_date = Some 2\<rparr>]\<rparr>
         \<lparr>payment_pk = 1, payment_invoice = 1, payment_amount = 100,
          confirmed = False, confirmed_by = None, confirmation_date = None\<rparr> 3 5 5))
      4 20 20)) 1
   = \<lparr>invoice_total = 300, amount_paid = 130, balance_due = 170,
      payment_status = ''PARTIAL'', due_date = 10\<rparr>
   \<and> invoices (snd (confirm_payment
         \<lparr>invoices = table_of \<lparr>invoice_total = 300, amount_paid = 0, balance_due = 300,
                                 payment_status = ''SENT'', due_date = 10\<rparr>,
          payments = [\<lparr>payment_pk = 1, payment_invoice = 1, payment_amount = 100,
                        confirmed = False, confirmed_by = None, confirmation_date = None\<rparr>,
                      \<lparr>payment_pk = 2, payment_invoice = 1, payment_amount = 50,
                        confirmed = False, confirmed_by = None, confirmation_date = None\<rparr>,
                      \<lparr>payment_pk = 3, payment_invoice = 2, payment_amount = 70,
                        confirmed = True, confirmed_by = Some 3, confirmation_date = Some 2\<rparr>,
                      \<lparr>payment_pk = 4, payment_invoice = 1, payment_amount = 30,
                        confirmed = True, confirmed_by = Some 3, confirmation_date = Some 2\<rparr>]\<rparr>
         \<lparr>payment_pk = 1, payment_invoice = 1, payment_amount = 100,
          confirmed = False, confirmed_by = None, confirmation_date = None\<rparr> 3 5 5)) 1
     = \<lparr>invoice_total = 300, amount_paid = 130, balance_due = 170,
        payment_status = ''PARTIAL'', due_date = 10\<rparr>"
proof -
  let ?p = "\<lparr>payment_pk = 1, payment_invoice = 1, payment_amount = 100,
             confirmed = False, confirmed_by = None, confirmation_date = None\<rparr>"
  let ?db = "\<lparr>invoices = table_of \<lparr>invoice_total = 300, amount_paid = 0, balance_due = 300,
                                    payment_status = ''SENT'', due_date = 10\<rparr>,
              payments = [?p,
                          \<lparr>payment_pk = 2, payment_invoice = 1, payment_amount = 50,
                            confirmed = False, confirmed_by = None, confirmation_date = None\<rparr>,
                          \<lparr>payment_pk = 3, payment_invoice = 2, payment_amount = 70,
                            confirmed = True, confirmed_by = Some 3, confirmation_date = Some 2\<rparr>,
                          \<lparr>payment_pk = 4, payment_invoice = 1, payment_amount = 30,
                            confirmed = True, confirmed_by = Some 3, confirmation_date = Some 2\<rparr>]\<rparr>"
  let ?first = "confirm_payment ?db ?p 3 5 5"
  let ?second = "confirm_payment (snd ?first) (fst ?first) 4 20 20"
  have c1: "?first = (fst ?first, snd ?first)" by simp
  have c2: "?second = (fst ?second, snd ?second)" by simp
  have pos: "0 < payment_amount ?p \<and> (\<forall>p\<in>set (payments ?db). 0 \<le> payment_amount p)"
    by simp
  have same: "invoices (snd ?second) = invoices (snd ?first)"
    using confirm_payment_idempotent[OF c1 c2, of 1] pos by blast
  have once: "invoices (snd ?first) 1
                = \<lparr>invoice_total = 300, amount_paid = 130, balance_due = 170,
                   payment_status = ''PARTIAL'', due_date = 10\<rparr>"
    by (simp add: confirm_payment_def Payment_save_def confirmed_total_def Invoice_save_def
                  table_of_def Let_def)
  have twice: "invoices (snd ?second) 1 = invoices (snd ?first) 1"
    using same by (rule arg_cong)
  show ?thesis using twice once by (intro conjI) (simp_all only:)
qed

section \<open>Delivery notes\<close>







section \<open>Document numbers\<close>






































section \<open>Where the views run the loops\<close>

text \<open>
  The ledger results above are about the loops. These lemmas say which loop each view runs
  on the table of materials, so that the results carry over to the views.
\<close>

lemma convert_items_materials:
  "materials (convert_items db opk items)
     = reserve_items (materials db) (map (order_item_of opk) items)"
  by (induction items arbitrary: db) (simp_all add: order_item_of_def)

lemma order_update_status_materials:
  "materials (snd (order_update_status request today db pk status))
     = (if is_authenticated request
           \<and> (\<exists>ord. get_order db pk = Some ord
                  \<and> status \<in> set (valid_transitions (order_status ord)))
        then if status = ''RETURNED''
             then release_returned (materials db) (items_of_order db pk)
             else if status = ''COMPLETED''
             then release_completed (materials db) (items_of_order db pk)
             else materials db
        else materials db)"
proof (cases "get_order db pk")
  case None
  then show ?thesis by (simp add: order_update_status_def)
next
  case (Some ord)
  then have "order_pk ord = pk" by (rule get_order_pk)
  then show ?thesis using Some by (simp add: order_update_status_def Let_def)
qed

lemma create_order_from_quotation_materials:
  "fst (create_order_from_quotation request db pk) \<noteq> Created
     \<Longrightarrow> snd (create_order_from_quotation request db pk) = db"
  by (auto simp: create_order_from_quotation_def Let_def split: option.splits if_splits)

lemma create_order_from_quotation_created:
  assumes "fst (create_order_from_quotation request db pk) = Created"
  shows "materials (snd (create_order_from_quotation request db pk))
           = reserve_items (materials db)
               (items_of_order db (next_pk (map order_pk (hire_orders db)))
                @ map (order_item_of (next_pk (map order_pk (hire_orders db))))
                      (items_of_quotation db pk))"
proof (cases "get_quotation db pk")
  case None
  then show ?thesis using assms by (simp add: create_order_from_quotation_def split: if_splits)
next
  case (Some quotation)
  then have pk: "quotation_pk quotation = pk"
    by (auto simp: get_quotation_def find_Some_iff)
  show ?thesis
    using assms Some pk
    by (auto simp: create_order_from_quotation_def new_order_def items_of_order_def
                   items_of_quotation_def order_item_of_def Let_def
             split: option.splits if_splits)
qed

text \<open>
  \<^verbatim>\<open>order_create\<close> never comes to its loop: the INSERT of the order raises, and the view
  leaves the database as it was, whatever the request and the forms are.
\<close>

lemma order_create_writes_nothing:
  "snd (order_create request db formset) = db"
  and "is_authenticated request \<Longrightarrow> is_post request \<Longrightarrow> form_is_valid request
         \<Longrightarrow> fst (order_create request db formset) = ServerError IntegrityError"
  by (simp_all add: order_create_def HireOrder_insert_def)

text \<open>The loop itself would reserve the quantity of every form that is kept.\<close>

lemma order_create_items_materials:
  "materials (order_create_items db opk forms)
     = reserve_items (materials db)
         (map (\<lambda>f. \<lparr>hire_order = opk, item_material = form_material f,
                      quantity_ordered = form_quantity_ordered f,
                      quantity_dispatched = 0, quantity_returned = 0\<rparr>)
              (filter (\<lambda>f. \<not> form_DELETE f) forms))"
  by (induction forms arbitrary: db) simp_all

end
